theory Spec2Isabelle
  imports Complex_Main
begin

section \<open>Taxonomy (source/enums.py)\<close>

text \<open>
  The enumerations of \<^verbatim>\<open>source/enums.py\<close> are datatypes. A Python mapping lookup
  \<^verbatim>\<open>mapping[self]\<close> that has no entry for a member raises \<^verbatim>\<open>KeyError\<close>; those lookups
  return a sum with the error on the left.
\<close>

datatype error = KeyError | AssertionError | ValueError | IndexError | ZeroDivisionError | PostgresError

datatype Rarity = common | uncommon | rare | epic | mythic | legendary | exotic | nightmare
  | exclusive_icicle

datatype SpecialRarity = unknown | shiny

datatype Condition = damaged | poor | good | near_mint | mint | pristine

datatype Currency = Currency_silver | Currency_star | Currency_gem | Currency_voucher

datatype Item = glistening_gem | fusion_crystal | card_sleeve | premium_drop | crown
  | backpack_upgrade | rare_card_pack | epic_card_pack | mythic_card_pack | legendary_card_pack
  | exotic_card_pack

datatype PatreonRole = PatreonRole_common | PatreonRole_uncommon | PatreonRole_rare

fun Rarity_level :: "Rarity \<Rightarrow> error + int" where
  "Rarity_level common = Inr 1"
| "Rarity_level uncommon = Inr 2"
| "Rarity_level rare = Inr 3"
| "Rarity_level epic = Inr 4"
| "Rarity_level mythic = Inr 5"
| "Rarity_level legendary = Inr 6"
| "Rarity_level exotic = Inr 7"
| "Rarity_level nightmare = Inr 8"
| "Rarity_level exclusive_icicle = Inl KeyError"

fun to_silver :: "Rarity \<Rightarrow> error + (int \<times> int)" where
  "to_silver common = Inr (10, 40)"
| "to_silver uncommon = Inr (50, 75)"
| "to_silver rare = Inr (100, 350)"
| "to_silver epic = Inr (500, 750)"
| "to_silver mythic = Inr (1000, 4750)"
| "to_silver legendary = Inr (5000, 9750)"
| "to_silver _ = Inl KeyError"

fun Rarity_to_star :: "Rarity \<Rightarrow> error + int" where
  "Rarity_to_star common = Inr 3"
| "Rarity_to_star uncommon = Inr 12"
| "Rarity_to_star rare = Inr 33"
| "Rarity_to_star epic = Inr 72"
| "Rarity_to_star mythic = Inr 138"
| "Rarity_to_star legendary = Inr 228"
| "Rarity_to_star exotic = Inr 486"
| "Rarity_to_star nightmare = Inr 972"
| "Rarity_to_star exclusive_icicle = Inl KeyError"

definition get_exclusive_rarities :: "Rarity list" where
  "get_exclusive_rarities = [exclusive_icicle]"

definition get_valuable_rarities :: "Rarity list" where
  "get_valuable_rarities = [exotic, nightmare] @ get_exclusive_rarities"

fun Condition_level :: "Condition \<Rightarrow> int" where
  "Condition_level damaged = 1"
| "Condition_level poor = 2"
| "Condition_level good = 3"
| "Condition_level near_mint = 4"
| "Condition_level mint = 5"
| "Condition_level pristine = 6"

fun Condition_to_star :: "Condition \<Rightarrow> int" where
  "Condition_to_star damaged = 3"
| "Condition_to_star poor = 12"
| "Condition_to_star good = 33"
| "Condition_to_star near_mint = 72"
| "Condition_to_star mint = 138"
| "Condition_to_star pristine = 228"

fun role_id :: "PatreonRole \<Rightarrow> int" where
  "role_id PatreonRole_common = 1099000179723604068"
| "role_id PatreonRole_uncommon = 1099008980304547962"
| "role_id PatreonRole_rare = 1099009546481049600"

fun tier :: "PatreonRole \<Rightarrow> int" where
  "tier PatreonRole_common = 1"
| "tier PatreonRole_uncommon = 2"
| "tier PatreonRole_rare = 3"

definition PatreonRole_members :: "PatreonRole list" where
  "PatreonRole_members = [PatreonRole_common, PatreonRole_uncommon, PatreonRole_rare]"

definition get_role_ids :: "int list" where
  "get_role_ids = map role_id PatreonRole_members"

subsection \<open>Weight tables\<close>

text \<open>
  The weights are Python floats; they are rationals here, so \<^verbatim>\<open>99.95\<close> is exactly
  \<open>1999 / 20\<close>. A Python dict keeps insertion order, and \<^verbatim>\<open>random.choices\<close> depends on it,
  so a table is an association list.
\<close>

datatype WeightT = NewUserWeight | BasicWeight | PremiumWeight

fun weight_rarity :: "WeightT \<Rightarrow> (Rarity \<times> rat) list" where
  "weight_rarity NewUserWeight = [(common, 65), (uncommon, 20), (rare, 10), (epic, 5)]"
| "weight_rarity BasicWeight =
     [(common, 93 / 2), (uncommon, 30), (rare, 161 / 10), (epic, 6), (mythic, 5 / 4),
      (legendary, 3 / 20)]"
| "weight_rarity PremiumWeight =
     [(uncommon, 50), (rare, 30), (epic, 33 / 2), (mythic, 11 / 4), (legendary, 3 / 4)]"

fun weight_condition :: "WeightT \<Rightarrow> (Condition \<times> rat) list" where
  "weight_condition NewUserWeight =
     [(damaged, 16), (poor, 45), (good, 25), (near_mint, 10), (mint, 3), (pristine, 1)]"
| "weight_condition BasicWeight =
     [(damaged, 10), (poor, 20), (good, 45), (near_mint, 19), (mint, 5), (pristine, 1)]"
| "weight_condition PremiumWeight =
     [(damaged, 10), (poor, 20), (good, 45), (near_mint, 37 / 2), (mint, 5), (pristine, 3 / 2)]"

fun weight_special_rarity :: "WeightT \<Rightarrow> (SpecialRarity \<times> rat) list" where
  "weight_special_rarity NewUserWeight = [(unknown, 100)]"
| "weight_special_rarity BasicWeight = [(unknown, 1999 / 20), (shiny, 1 / 20)]"
| "weight_special_rarity PremiumWeight = [(unknown, 499 / 5), (shiny, 1 / 5)]"

section \<open>Randomness (Python's random module)\<close>

text \<open>
  The generator is an infinite tape of raw draws; every call reads the head and returns
  the rest. \<^verbatim>\<open>random.random()\<close> is a 53-bit fraction in \<open>[0, 1)\<close>;
  \<^verbatim>\<open>randint\<close> and \<^verbatim>\<open>choice\<close> reduce one draw modulo the width (CPython draws bits and
  rejects, which gives the same range). \<^verbatim>\<open>random.choices\<close> follows CPython:
  cumulative weights, then \<^verbatim>\<open>bisect(cum_weights, random() * total, 0, n - 1)\<close>.
\<close>

type_synonym rng = "nat \<Rightarrow> nat"

definition rng_tail :: "rng \<Rightarrow> rng" where
  "rng_tail g = (\<lambda>i. g (Suc i))"

definition random_random :: "rng \<Rightarrow> rat \<times> rng" where
  "random_random g = (of_nat (g 0 mod 2 ^ 53) / 2 ^ 53, rng_tail g)"

definition randint :: "int \<Rightarrow> int \<Rightarrow> rng \<Rightarrow> error + (int \<times> rng)" where
  "randint a b g =
     (if b + 1 - a \<le> 0 then Inl ValueError
      else Inr (a + int (g 0) mod (b + 1 - a), rng_tail g))"

definition random_choice :: "'a list \<Rightarrow> rng \<Rightarrow> error + ('a \<times> rng)" where
  "random_choice seq g =
     (if seq = [] then Inl IndexError
      else Inr (seq ! (g 0 mod length seq), rng_tail g))"

fun accumulate :: "rat \<Rightarrow> rat list \<Rightarrow> rat list" where
  "accumulate acc [] = []"
| "accumulate acc (x # xs) = (acc + x) # accumulate (acc + x) xs"

function bisect_right :: "rat list \<Rightarrow> rat \<Rightarrow> nat \<Rightarrow> nat \<Rightarrow> nat" where
  "bisect_right a x lo hi =
     (if lo < hi then
        (let mid = (lo + hi) div 2
         in if x < a ! mid then bisect_right a x lo mid else bisect_right a x (mid + 1) hi)
      else lo)"
  by pat_completeness auto
termination
  by (relation "measure (\<lambda>(a, x, lo, hi). hi - lo)") auto

declare bisect_right.simps [simp del]

definition random_choices :: "'a list \<Rightarrow> rat list \<Rightarrow> rng \<Rightarrow> error + ('a \<times> rng)" where
  "random_choices population weights g =
     (let n = length population; cum_weights = accumulate 0 weights
      in if length cum_weights \<noteq> n then Inl ValueError
         else if cum_weights = [] then Inl IndexError
         else let total = last cum_weights
              in if total \<le> 0 then Inl ValueError
                 else let (u, g') = random_random g
                      in Inr (population ! bisect_right cum_weights (u * total) 0 (n - 1), g'))"

section \<open>Persistent tables (source/utils/psql.py)\<close>

text \<open>
  Time stamps are whole seconds since the epoch. The card image of \<^verbatim>\<open>CardImage\<close> and all
  image composition are presentation and are left out; \<^verbatim>\<open>CardTable\<close> extends the shared
  card fields with the columns only the table has.
\<close>

record CardImage =
  card_id :: string
  rarity :: Rarity
  condition :: Condition
  special_rarity :: SpecialRarity
  character_name :: string
  has_sleeve :: bool

record CardTable = CardImage +
  owner_id :: int
  created_at :: int
  locked :: bool

record UserTable =
  table_id :: int
  user_id :: int
  silver :: int
  star :: int
  gem :: int
  voucher :: int
  registered_at :: int
  backpack_level :: int

record InventoryTable =
  inv_owner_id :: int
  item :: Item
  amount :: int

record LevelTable =
  level_user_id :: int
  current_exp :: int
  current_level :: int
  max_exp :: int

record Member =
  member_id :: int
  roles :: "int list"

text \<open>
  A command carries its cooldown mapping in \<^verbatim>\<open>extras["cooldown"]\<close> when it is decorated
  with \<^verbatim>\<open>resettable_cooldown(rate, per)\<close>. The bucket is discord.py's
  \<^verbatim>\<open>commands.Cooldown\<close>; the mapping keeps one bucket per user.
\<close>

record Cooldown =
  rate :: int
  per :: rat
  window :: rat
  tokens :: int
  last_call :: rat

record Command =
  command_name :: string
  extras_cooldown :: "(int \<times> rat) option"

record Interaction =
  user :: Member
  command :: "Command option"

datatype embed = error_embed string | warning_embed string | success_embed string
  | info_embed string | custom_embed string

record world =
  users :: "UserTable list"
  inventory :: "InventoryTable list"
  cards :: "CardTable list"
  levels :: "LevelTable list"
  cooldowns :: "string \<times> int \<Rightarrow> Cooldown option"
  sent :: "embed list"

definition send :: "embed \<Rightarrow> world \<Rightarrow> world" where
  "send e w = w\<lparr>sent := sent w @ [e]\<rparr>"

subsection \<open>Users\<close>

definition get_table :: "int \<Rightarrow> world \<Rightarrow> UserTable option" where
  "get_table uid w = find (\<lambda>u. user_id u = uid) (users w)"

definition set_silver :: "int \<Rightarrow> int \<Rightarrow> bool \<Rightarrow> world \<Rightarrow> world" where
  "set_silver uid amt subtract w =
     (let amt' = (if subtract then amt * (- 1) else amt)
      in w\<lparr>users := map (\<lambda>u. if user_id u = uid then u\<lparr>silver := silver u + amt'\<rparr> else u)
                         (users w)\<rparr>)"

definition set_star :: "int \<Rightarrow> int \<Rightarrow> bool \<Rightarrow> world \<Rightarrow> world" where
  "set_star uid amt subtract w =
     (let amt' = (if subtract then amt * (- 1) else amt)
      in w\<lparr>users := map (\<lambda>u. if user_id u = uid then u\<lparr>star := star u + amt'\<rparr> else u)
                         (users w)\<rparr>)"

definition set_gem :: "int \<Rightarrow> int \<Rightarrow> bool \<Rightarrow> world \<Rightarrow> world" where
  "set_gem uid amt subtract w =
     (let amt' = (if subtract then amt * (- 1) else amt)
      in w\<lparr>users := map (\<lambda>u. if user_id u = uid then u\<lparr>gem := gem u + amt'\<rparr> else u)
                         (users w)\<rparr>)"

definition set_voucher :: "int \<Rightarrow> int \<Rightarrow> bool \<Rightarrow> world \<Rightarrow> world" where
  "set_voucher uid amt subtract w =
     (let amt' = (if subtract then amt * (- 1) else amt)
      in w\<lparr>users := map (\<lambda>u. if user_id u = uid then u\<lparr>voucher := voucher u + amt'\<rparr> else u)
                         (users w)\<rparr>)"

definition increase_backpack_level :: "int \<Rightarrow> world \<Rightarrow> world" where
  "increase_backpack_level uid w =
     w\<lparr>users := map (\<lambda>u. if user_id u = uid then u\<lparr>backpack_level := backpack_level u + 1\<rparr>
                          else u) (users w)\<rparr>"

text \<open>
  \<^verbatim>\<open>register\<close> inserts the user row, and its \<^verbatim>\<open>levels\<close> row, when the user has none.
  The column defaults and the primary key come from the database schema and its sequence,
  which are not part of the repository: \<open>new_row\<close> is the row the database creates. The
  \<^verbatim>\<open>daily\<close> and \<^verbatim>\<open>vote\<close> tables are read by none of the operations below and are left out.
\<close>

definition register :: "UserTable \<Rightarrow> int \<Rightarrow> int \<Rightarrow> world \<Rightarrow> int \<times> world" where
  "register new_row now uid w =
     (case get_table uid w of
        None \<Rightarrow>
          (table_id new_row,
           w\<lparr>users := users w @ [new_row\<lparr>user_id := uid, registered_at := now\<rparr>],
             levels := levels w
               @ [\<lparr>level_user_id = table_id new_row, current_exp = 0, current_level = 1,
                    max_exp = 43\<rparr>]\<rparr>)
      | Some user_table \<Rightarrow> (table_id user_table, w))"

definition levels_get_table :: "int \<Rightarrow> world \<Rightarrow> LevelTable option" where
  "levels_get_table uid w =
     find (\<lambda>l. Some (level_user_id l) = map_option table_id (get_table uid w)) (levels w)"

subsection \<open>Cards\<close>

definition owner_pk :: "int \<Rightarrow> world \<Rightarrow> int option" where
  "owner_pk uid w = map_option table_id (get_table uid w)"

definition get_card :: "string \<Rightarrow> world \<Rightarrow> CardTable option" where
  "get_card cid w = find (\<lambda>c. card_id c = cid) (cards w)"

definition none_if_empty :: "'a list \<Rightarrow> 'a list option" where
  "none_if_empty rows = (if rows = [] then None else Some rows)"

definition get_cards :: "int \<Rightarrow> world \<Rightarrow> CardTable list option" where
  "get_cards uid w = none_if_empty (filter (\<lambda>c. Some (owner_id c) = owner_pk uid w) (cards w))"

definition get_cards_by_card_id :: "string list \<Rightarrow> world \<Rightarrow> CardTable list option" where
  "get_cards_by_card_id cids w = none_if_empty (filter (\<lambda>c. card_id c \<in> set cids) (cards w))"

definition delete_card :: "string \<Rightarrow> world \<Rightarrow> world" where
  "delete_card cid w = w\<lparr>cards := filter (\<lambda>c. card_id c \<noteq> cid) (cards w)\<rparr>"

definition delete_cards_by_card_id :: "string list \<Rightarrow> world \<Rightarrow> world" where
  "delete_cards_by_card_id cids w = w\<lparr>cards := filter (\<lambda>c. card_id c \<notin> set cids) (cards w)\<rparr>"

definition add_card :: "CardTable \<Rightarrow> world \<Rightarrow> world" where
  "add_card c w = w\<lparr>cards := cards w @ [c\<lparr>has_sleeve := False, locked := False\<rparr>]\<rparr>"

subsection \<open>Inventory\<close>

text \<open>
  \<^verbatim>\<open>add_item\<close> is an upsert on \<open>(item, owner_id)\<close> whose owner is the sub-select of the
  user's primary key; \<^verbatim>\<open>InventoryTable.owner_id\<close> is an \<^verbatim>\<open>int\<close>, so an insert for an
  unregistered user fails. \<^verbatim>\<open>remove_item\<close> decrements and then deletes every row of the
  table whose amount is below one.
\<close>

definition get_item :: "int \<Rightarrow> Item \<Rightarrow> world \<Rightarrow> InventoryTable option" where
  "get_item uid it w =
     find (\<lambda>r. item r = it \<and> Some (inv_owner_id r) = owner_pk uid w) (inventory w)"

definition add_item :: "int \<Rightarrow> Item \<Rightarrow> int \<Rightarrow> world \<Rightarrow> error option \<times> world" where
  "add_item uid it amt w =
     (case owner_pk uid w of
        None \<Rightarrow> (Some PostgresError, w)
      | Some pk \<Rightarrow>
          if list_ex (\<lambda>r. item r = it \<and> inv_owner_id r = pk) (inventory w)
          then (None, w\<lparr>inventory := map (\<lambda>r. if item r = it \<and> inv_owner_id r = pk
                                                then r\<lparr>amount := amount r + amt\<rparr> else r)
                                          (inventory w)\<rparr>)
          else (None, w\<lparr>inventory := inventory w
                          @ [\<lparr>inv_owner_id = pk, item = it, amount = amt\<rparr>]\<rparr>))"

definition remove_item :: "int \<Rightarrow> Item \<Rightarrow> int \<Rightarrow> world \<Rightarrow> world" where
  "remove_item uid it amt w =
     w\<lparr>inventory :=
         filter (\<lambda>r. \<not> amount r < 1)
           (map (\<lambda>r. if item r = it \<and> Some (inv_owner_id r) = owner_pk uid w
                      then r\<lparr>amount := amount r - amt\<rparr> else r) (inventory w))\<rparr>"

section \<open>Cooldowns (source/utils/cooldown.py)\<close>

text \<open>
  \<^verbatim>\<open>commands.Cooldown\<close> of discord.py: \<^verbatim>\<open>get_tokens\<close> refills the bucket once the window
  has passed, \<^verbatim>\<open>update_rate_limit\<close> takes one token and returns the time to wait when none
  is left, \<^verbatim>\<open>reset\<close> refills the bucket. \<^verbatim>\<open>get_bucket\<close> creates the user's bucket on
  first use.
\<close>

definition new_bucket :: "int \<times> rat \<Rightarrow> Cooldown" where
  "new_bucket rp = \<lparr>rate = fst rp, per = snd rp, window = 0, tokens = fst rp, last_call = 0\<rparr>"

definition get_tokens :: "Cooldown \<Rightarrow> rat \<Rightarrow> int" where
  "get_tokens b current = (if current > window b + per b then rate b else max (tokens b) 0)"

definition update_rate_limit :: "Cooldown \<Rightarrow> rat \<Rightarrow> rat option \<times> Cooldown" where
  "update_rate_limit b current =
     (let b1 = b\<lparr>last_call := current\<rparr>;
          b2 = b1\<lparr>tokens := get_tokens b1 current\<rparr>;
          b3 = (if tokens b2 = rate b2 then b2\<lparr>window := current\<rparr> else b2);
          b4 = b3\<lparr>tokens := tokens b3 - 1\<rparr>
      in if tokens b4 < 0 then (Some (per b4 - (current - window b4)), b4) else (None, b4))"

definition reset :: "Cooldown \<Rightarrow> Cooldown" where
  "reset b = b\<lparr>tokens := rate b, last_call := 0\<rparr>"

definition get_bucket :: "Command \<Rightarrow> int \<times> rat \<Rightarrow> Member \<Rightarrow> world \<Rightarrow> Cooldown" where
  "get_bucket cmd rp m w =
     (case cooldowns w (command_name cmd, member_id m) of
        None \<Rightarrow> new_bucket rp
      | Some b \<Rightarrow> b)"

definition put_bucket :: "Command \<Rightarrow> Member \<Rightarrow> Cooldown \<Rightarrow> world \<Rightarrow> world" where
  "put_bucket cmd m b w =
     w\<lparr>cooldowns := (cooldowns w)((command_name cmd, member_id m) \<mapsto> b)\<rparr>"

text \<open>
  The check installed by \<^verbatim>\<open>resettable_cooldown\<close>: the invocation at time \<open>now\<close> passes
  (\<open>Inr True\<close>) unless the bucket asks to wait more than one second, in which case
  \<^verbatim>\<open>CommandOnCooldown\<close> is raised (\<open>Inl\<close> of the time to wait).
\<close>

definition wrapper :: "Interaction \<Rightarrow> rat \<Rightarrow> world \<Rightarrow> (rat + bool) \<times> world" where
  "wrapper i now w =
     (case command i of
        None \<Rightarrow> (Inr True, w)
      | Some cmd \<Rightarrow>
          (case extras_cooldown cmd of
             None \<Rightarrow> (Inr True, w)
           | Some rp \<Rightarrow>
               (let (retry_after, b) = update_rate_limit (get_bucket cmd rp (user i) w) now;
                    w' = put_bucket cmd (user i) b w
                in case retry_after of
                     None \<Rightarrow> (Inr True, w')
                   | Some r \<Rightarrow> if r \<noteq> 0 \<and> r > 1 then (Inl r, w') else (Inr True, w'))))"

definition reset_command_cooldown :: "Interaction \<Rightarrow> world \<Rightarrow> error option \<times> world" where
  "reset_command_cooldown i w =
     (case command i of
        None \<Rightarrow> (Some AssertionError, w)
      | Some cmd \<Rightarrow>
          (case extras_cooldown cmd of
             None \<Rightarrow> (Some KeyError, w)
           | Some rp \<Rightarrow>
               (None, put_bucket cmd (user i) (reset (get_bucket cmd rp (user i) w)) w)))"

section \<open>Confirmation (source/utils/view.py)\<close>

text \<open>
  A confirmation view ends with \<^verbatim>\<open>value\<close> \<open>None\<close> (timed out), \<open>Some True\<close> (accepted)
  or \<open>Some False\<close> (declined). The callback is the commit of the action; it runs on the
  world as it is when the view ends.
\<close>

definition wait_for_confirmation ::
  "Interaction \<Rightarrow> bool option \<Rightarrow> string option \<Rightarrow> (world \<Rightarrow> error option \<times> world)
     \<Rightarrow> world \<Rightarrow> error option \<times> world" where
  "wait_for_confirmation i view_value timeout_message callback w =
     (case view_value of
        None \<Rightarrow>
          (let (e, w1) =
                 (case command i of
                    None \<Rightarrow> (None, w)
                  | Some cmd \<Rightarrow>
                      if extras_cooldown cmd \<noteq> None then reset_command_cooldown i w
                      else (None, w))
           in case e of
                Some err \<Rightarrow> (Some err, w1)
              | None \<Rightarrow>
                  (None, send (error_embed (case timeout_message of
                                              None \<Rightarrow> ''You took too long to respond.''
                                            | Some t \<Rightarrow> t)) w1))
      | Some True \<Rightarrow> callback w
      | Some False \<Rightarrow> (None, send (error_embed ''Command canceled.'') w))"

section \<open>Burning one card (source/cogs/card.py)\<close>

definition confirm_single_card_burn ::
  "Interaction \<Rightarrow> int \<Rightarrow> int \<Rightarrow> int \<Rightarrow> CardTable \<Rightarrow> world \<Rightarrow> error option \<times> world" where
  "confirm_single_card_burn i total_silver total_star glistening_gem_amount crd w =
     (let uid = member_id (user i)
      in case get_card (card_id crd) w of
           None \<Rightarrow>
             (None, send (error_embed ''The card you wanted to burn doesn't exist anymore.'') w)
         | Some _ \<Rightarrow>
             (let w1 = set_silver uid total_silver False w;
                  w2 = set_star uid total_star False w1;
                  (e, w3) = (if special_rarity crd = shiny
                             then add_item uid glistening_gem glistening_gem_amount w2
                             else (None, w2))
              in case e of
                   Some err \<Rightarrow> (Some err, w3)
                 | None \<Rightarrow>
                     (None, send (success_embed ''Burning successful!'')
                              (delete_card (card_id crd) w3))))"

text \<open>
  The age of a card is \<^verbatim>\<open>(utcnow() - created_at).days\<close>, the floor of the difference in
  days. The daily bonus is summed over \<^verbatim>\<open>range(days)\<close>, which is empty for a negative
  number of days.
\<close>

definition timedelta_days :: "int \<Rightarrow> int \<Rightarrow> int" where
  "timedelta_days now created = (now - created) div 86400"

definition burn_totals :: "int \<Rightarrow> Condition \<Rightarrow> int \<Rightarrow> int \<times> int" where
  "burn_totals rarity_to_silver cond days0 =
     (let days = min days0 60;
          additional_silver_per_day = sum_list (replicate (nat days) (rarity_to_silver div 4));
          additional_star_per_day = sum_list (replicate (nat days) (Condition_to_star cond div 4));
          total_silver = rarity_to_silver + additional_silver_per_day;
          total_star = Condition_to_star cond + additional_star_per_day
      in (total_silver, total_star))"

text \<open>
  \<open>now\<close> is the clock, \<open>g\<close> the random tape, \<open>view_value\<close> the way the confirmation ends
  and \<open>meanwhile\<close> what other tasks do to the world while the handler waits for it.
\<close>

definition handle_single_card_burn ::
  "Interaction \<Rightarrow> CardTable \<Rightarrow> int \<Rightarrow> rng \<Rightarrow> bool option \<Rightarrow> (world \<Rightarrow> world) \<Rightarrow> world
     \<Rightarrow> error option \<times> world" where
  "handle_single_card_burn i crd now g view_value meanwhile w =
     (if rarity crd \<in> set get_valuable_rarities then
        (case reset_command_cooldown i w of
           (Some err, w1) \<Rightarrow> (Some err, w1)
         | (None, w1) \<Rightarrow>
             (None, send (error_embed ''This is an unburnable card since it is too valuable.'') w1))
      else if locked crd then
        (case reset_command_cooldown i w of
           (Some err, w1) \<Rightarrow> (Some err, w1)
         | (None, w1) \<Rightarrow>
             (None, send (error_embed ''You can't burn this card since it is `locked`.'') w1))
      else
        (case to_silver (rarity crd) of
           Inl err \<Rightarrow> (Some err, w)
         | Inr (lo, hi) \<Rightarrow>
             (case randint lo hi g of
                Inl err \<Rightarrow> (Some err, w)
              | Inr (rarity_to_silver, g1) \<Rightarrow>
                  (let days = timedelta_days now (created_at crd);
                       (total_silver, total_star) =
                          burn_totals rarity_to_silver (condition crd) days;
                       glistening_gem_amount = 1;
                       w1 = send (warning_embed ''Are you sure you wanna burn this card?'') w
                   in wait_for_confirmation i view_value None
                        (confirm_single_card_burn i total_silver total_star
                           glistening_gem_amount crd)
                        (meanwhile w1)))))"

section \<open>Patreon status (source/utils/__init__.py)\<close>

definition is_patreon :: "Member \<Rightarrow> bool" where
  "is_patreon m = list_ex (\<lambda>patreon_role_id. patreon_role_id \<in> set (roles m)) get_role_ids"

definition has_minimum_patreon_role :: "Member \<Rightarrow> PatreonRole \<Rightarrow> bool" where
  "has_minimum_patreon_role m minimum_patreon_role =
     (let patreon_roles =
            List.map_filter (\<lambda>rid. find (\<lambda>pr. role_id pr = rid) PatreonRole_members) (roles m)
      in list_ex (\<lambda>patreon_role. tier patreon_role \<ge> tier minimum_patreon_role) patreon_roles)"

section \<open>Card generation (CardFactory in source/cogs/card.py)\<close>

definition weight_or_basic :: "WeightT option \<Rightarrow> WeightT" where
  "weight_or_basic weight = (case weight of None \<Rightarrow> BasicWeight | Some wt \<Rightarrow> wt)"

definition generate_rarity :: "WeightT option \<Rightarrow> rng \<Rightarrow> error + (Rarity \<times> rng)" where
  "generate_rarity weight g =
     (let tbl = weight_rarity (weight_or_basic weight)
      in random_choices (map fst tbl) (map snd tbl) g)"

definition generate_condition :: "WeightT option \<Rightarrow> rng \<Rightarrow> error + (Condition \<times> rng)" where
  "generate_condition weight g =
     (let tbl = weight_condition (weight_or_basic weight)
      in random_choices (map fst tbl) (map snd tbl) g)"

text \<open>
  The weights \<^verbatim>\<open>generate_special_rarity\<close> hands to \<^verbatim>\<open>random.choices\<close>. For a patron the
  table is copied, \<^verbatim>\<open>shiny_weight\<close> is twice the shiny entry (\<open>0.01\<close> when the table has
  none), and the statement \<^verbatim>\<open>special_rarity[SpecialRarity.unknown] -= shiny_weight\<close>
  changes the unknown entry; no statement assigns the shiny entry.
\<close>

definition special_rarity_weights ::
  "Member option \<Rightarrow> WeightT option \<Rightarrow> error + (SpecialRarity \<times> rat) list" where
  "special_rarity_weights member weight =
     (let tbl = weight_special_rarity (weight_or_basic weight)
      in case member of
           None \<Rightarrow> Inr tbl
         | Some m \<Rightarrow>
             if is_patreon m then
               (let shiny_weight = (case map_of tbl shiny of None \<Rightarrow> 1 / 100 | Some sw \<Rightarrow> sw) * 2
                in case map_of tbl unknown of
                     None \<Rightarrow> Inl KeyError
                   | Some _ \<Rightarrow>
                       Inr (map (\<lambda>(sr, wgt). if sr = unknown then (sr, wgt - shiny_weight)
                                             else (sr, wgt)) tbl))
             else Inr tbl)"

definition generate_special_rarity ::
  "Member option \<Rightarrow> WeightT option \<Rightarrow> rng \<Rightarrow> error + (SpecialRarity \<times> rng)" where
  "generate_special_rarity member weight g =
     (case special_rarity_weights member weight of
        Inl e \<Rightarrow> Inl e
      | Inr tbl \<Rightarrow> random_choices (map fst tbl) (map snd tbl) g)"

text \<open>
  \<^verbatim>\<open>random.choices(population, k=k)\<close> without weights picks
  \<^verbatim>\<open>population[floor(random() * n)]\<close>, \<open>k\<close> times.
\<close>

fun random_choices_k :: "'a list \<Rightarrow> nat \<Rightarrow> rng \<Rightarrow> error + ('a list \<times> rng)" where
  "random_choices_k population 0 g = Inr ([], g)"
| "random_choices_k population (Suc k) g =
     (let (u, g1) = random_random g;
          idx = nat \<lfloor>u * of_nat (length population)\<rfloor>
      in if idx < length population then
           (case random_choices_k population k g1 of
              Inl e \<Rightarrow> Inl e
            | Inr (rest, g2) \<Rightarrow> Inr (population ! idx # rest, g2))
         else Inl IndexError)"

definition card_id_alphabet :: string where
  "card_id_alphabet = ''0123456789'' @ ''abcdefghijklmnopqrstuvwxyz'' @ ''0123456789''"

definition generate_card_id :: "rng \<Rightarrow> error + (string \<times> rng)" where
  "generate_card_id g = random_choices_k card_id_alphabet 6 g"

text \<open>
  The character roster is read from the asset directories, which are not part of the
  repository: \<open>roster r\<close> is the list of \<^verbatim>\<open>Character\<close> names of rarity \<open>r\<close>. The map
  inside \<^verbatim>\<open>get_random_character\<close> has no entry for the exclusive rarity.
\<close>

definition rarity_map :: "(Rarity \<Rightarrow> string list) \<Rightarrow> Rarity \<Rightarrow> error + string list" where
  "rarity_map roster r = (if r = exclusive_icicle then Inl KeyError else Inr (roster r))"

definition all_rarities :: "Rarity list" where
  "all_rarities = [common, uncommon, rare, epic, mythic, legendary, exotic, nightmare,
                   exclusive_icicle]"

definition get_random_character ::
  "(Rarity \<Rightarrow> string list) \<Rightarrow> Rarity option \<Rightarrow> rng \<Rightarrow> error + (string \<times> rng)" where
  "get_random_character roster rarity_opt g =
     (if rarity_opt = None \<or> the rarity_opt \<in> set get_exclusive_rarities then
        (case random_choice all_rarities g of
           Inl e \<Rightarrow> Inl e
         | Inr (r, g1) \<Rightarrow>
             (case rarity_map roster r of
                Inl e \<Rightarrow> Inl e
              | Inr character_list \<Rightarrow> random_choice character_list g1))
      else
        (case rarity_map roster (the rarity_opt) of
           Inl e \<Rightarrow> Inl e
         | Inr character_list \<Rightarrow> random_choice character_list g))"

definition pack_conditions :: "(Condition \<times> rat) list" where
  "pack_conditions = [(pristine, 10), (mint, 80), (near_mint, 10)]"

text \<open>One pass of the loop body of \<^verbatim>\<open>generate_card\<close>.\<close>

definition generate_one_card ::
  "(Rarity \<Rightarrow> string list) \<Rightarrow> Member option \<Rightarrow> Rarity option \<Rightarrow> Condition option
     \<Rightarrow> SpecialRarity option \<Rightarrow> WeightT option \<Rightarrow> bool \<Rightarrow> rng \<Rightarrow> error + (CardImage \<times> rng)" where
  "generate_one_card roster member rarity_opt condition_opt special_rarity_opt weight pack g =
     (case (case rarity_opt of Some r \<Rightarrow> Inr (r, g) | None \<Rightarrow> generate_rarity weight g) of
        Inl e \<Rightarrow> Inl e
      | Inr (card_rarity, g1) \<Rightarrow>
     (case (case condition_opt of Some c \<Rightarrow> Inr (c, g1)
            | None \<Rightarrow> generate_condition weight g1) of
        Inl e \<Rightarrow> Inl e
      | Inr (card_condition, g2) \<Rightarrow>
     (case (case special_rarity_opt of Some sr \<Rightarrow> Inr (sr, g2)
            | None \<Rightarrow> generate_special_rarity member weight g2) of
        Inl e \<Rightarrow> Inl e
      | Inr (card_special_rarity, g3) \<Rightarrow>
     (case get_random_character roster (Some card_rarity) g3 of
        Inl e \<Rightarrow> Inl e
      | Inr (name, g4) \<Rightarrow>
     (case generate_card_id g4 of
        Inl e \<Rightarrow> Inl e
      | Inr (generated_id, g5) \<Rightarrow>
     (case (if pack then random_choices (map fst pack_conditions) (map snd pack_conditions) g5
            else Inr (card_condition, g5)) of
        Inl e \<Rightarrow> Inl e
      | Inr (final_condition, g6) \<Rightarrow>
          Inr (\<lparr>card_id = (if name = ''Troll'' then ''7R0115'' else generated_id),
                rarity = card_rarity, condition = final_condition,
                special_rarity = card_special_rarity, character_name = name,
                has_sleeve = False\<rparr>, g6)))))))"

fun generate_card_loop ::
  "(Rarity \<Rightarrow> string list) \<Rightarrow> Member option \<Rightarrow> Rarity option \<Rightarrow> Condition option
     \<Rightarrow> SpecialRarity option \<Rightarrow> WeightT option \<Rightarrow> bool \<Rightarrow> nat \<Rightarrow> CardImage list \<Rightarrow> rng
     \<Rightarrow> error + (CardImage list \<times> rng)" where
  "generate_card_loop roster member r c sr weight pack 0 acc g = Inr (acc, g)"
| "generate_card_loop roster member r c sr weight pack (Suc n) acc g =
     (case generate_one_card roster member r c sr weight pack g of
        Inl e \<Rightarrow> Inl e
      | Inr (crd, g1) \<Rightarrow> generate_card_loop roster member r c sr weight pack n (acc @ [crd]) g1)"

text \<open>\<^verbatim>\<open>range(amount)\<close> is empty for a negative amount.\<close>

definition generate_card ::
  "(Rarity \<Rightarrow> string list) \<Rightarrow> Member option \<Rightarrow> Rarity option \<Rightarrow> Condition option
     \<Rightarrow> SpecialRarity option \<Rightarrow> int \<Rightarrow> WeightT option \<Rightarrow> bool \<Rightarrow> rng
     \<Rightarrow> error + (CardImage list \<times> rng)" where
  "generate_card roster member r c sr amt weight pack g =
     generate_card_loop roster member r c sr weight pack (nat amt) [] g"

definition downgrade :: "Condition \<Rightarrow> Condition" where
  "downgrade current_condition =
     (case current_condition of
        pristine \<Rightarrow> mint | mint \<Rightarrow> near_mint | near_mint \<Rightarrow> good | good \<Rightarrow> poor
      | poor \<Rightarrow> damaged | damaged \<Rightarrow> damaged)"

section \<open>Card packs (source/entity.py)\<close>

definition generate_leaked_card ::
  "(Rarity \<Rightarrow> string list) \<Rightarrow> Rarity \<Rightarrow> rat \<Rightarrow> int \<Rightarrow> rng
     \<Rightarrow> error + ((CardImage list \<times> int) \<times> rng)" where
  "generate_leaked_card roster leak_rarity leak_chance deduct_from g =
     (let (u, g1) = random_random g
      in if u * 100 < leak_chance then
           (case generate_card roster None (Some leak_rarity) None None 1 None True g1 of
              Inl e \<Rightarrow> Inl e
            | Inr (generated_cards, g2) \<Rightarrow> Inr ((generated_cards, deduct_from - 1), g2))
         else Inr (([], deduct_from), g1))"

fun generate_card_pack_contents ::
  "(Rarity \<Rightarrow> string list) \<Rightarrow> Member \<Rightarrow> (Rarity \<times> int) list \<Rightarrow> CardImage list \<Rightarrow> rng
     \<Rightarrow> error + (CardImage list \<times> rng)" where
  "generate_card_pack_contents roster member [] cards_list g = Inr (cards_list, g)"
| "generate_card_pack_contents roster member ((r, amt) # rest) cards_list g =
     (case generate_card roster (Some member) (Some r) None None amt None True g of
        Inl e \<Rightarrow> Inl e
      | Inr (generated_cards, g1) \<Rightarrow>
          generate_card_pack_contents roster member rest (cards_list @ generated_cards) g1)"

text \<open>
  The five pack handlers up to the list of cards they pass to \<^verbatim>\<open>_handle_card_pack\<close>.
\<close>

definition rare_card_pack_cards ::
  "(Rarity \<Rightarrow> string list) \<Rightarrow> Member \<Rightarrow> rng \<Rightarrow> error + (CardImage list \<times> rng)" where
  "rare_card_pack_cards roster member g =
     (let max_cards = 7
      in case randint 2 4 g of
           Inl e \<Rightarrow> Inl e
         | Inr (rare_cards, g1) \<Rightarrow>
             (let uncommon_cards = max_cards - rare_cards
              in case generate_leaked_card roster epic 20 rare_cards g1 of
                   Inl e \<Rightarrow> Inl e
                 | Inr ((generated_cards, rare_cards'), g2) \<Rightarrow>
                     generate_card_pack_contents roster member
                       [(rare, rare_cards'), (uncommon, uncommon_cards)] generated_cards g2))"

definition epic_card_pack_cards ::
  "(Rarity \<Rightarrow> string list) \<Rightarrow> Member \<Rightarrow> rng \<Rightarrow> error + (CardImage list \<times> rng)" where
  "epic_card_pack_cards roster member g =
     (let max_cards = 7
      in case randint 1 2 g of
           Inl e \<Rightarrow> Inl e
         | Inr (epic_cards, g1) \<Rightarrow>
             (case randint 0 (max_cards - epic_cards) g1 of
                Inl e \<Rightarrow> Inl e
              | Inr (rare_cards, g2) \<Rightarrow>
                  (let uncommon_cards = max_cards - (epic_cards + rare_cards)
                   in case generate_leaked_card roster mythic 10 epic_cards g2 of
                        Inl e \<Rightarrow> Inl e
                      | Inr ((generated_cards, epic_cards'), g3) \<Rightarrow>
                          generate_card_pack_contents roster member
                            [(epic, epic_cards'), (rare, rare_cards), (uncommon, uncommon_cards)]
                            generated_cards g3)))"

definition mythic_card_pack_cards ::
  "(Rarity \<Rightarrow> string list) \<Rightarrow> Member \<Rightarrow> rng \<Rightarrow> error + (CardImage list \<times> rng)" where
  "mythic_card_pack_cards roster member g =
     (let max_cards = 5; mythic_cards = 1
      in case randint 1 2 g of
           Inl e \<Rightarrow> Inl e
         | Inr (epic_cards, g1) \<Rightarrow>
             (let rare_cards = max_cards - (mythic_cards + epic_cards)
              in case generate_leaked_card roster legendary 1 mythic_cards g1 of
                   Inl e \<Rightarrow> Inl e
                 | Inr ((generated_cards, mythic_cards'), g2) \<Rightarrow>
                     generate_card_pack_contents roster member
                       [(mythic, mythic_cards'), (epic, epic_cards), (rare, rare_cards)]
                       generated_cards g2))"

definition legendary_card_pack_cards ::
  "(Rarity \<Rightarrow> string list) \<Rightarrow> Member \<Rightarrow> rng \<Rightarrow> error + (CardImage list \<times> rng)" where
  "legendary_card_pack_cards roster member g =
     (let max_cards = 5; legendary_cards = 1
      in case randint 0 1 g of
           Inl e \<Rightarrow> Inl e
         | Inr (mythic_cards, g1) \<Rightarrow>
             (let epic_cards = abs (mythic_cards - 1);
                  rare_cards = max_cards - (legendary_cards + mythic_cards + epic_cards)
              in case generate_leaked_card roster exotic (1 / 10) legendary_cards g1 of
                   Inl e \<Rightarrow> Inl e
                 | Inr ((generated_cards, legendary_cards'), g2) \<Rightarrow>
                     generate_card_pack_contents roster member
                       [(legendary, legendary_cards'), (mythic, mythic_cards),
                        (epic, epic_cards), (rare, rare_cards)]
                       generated_cards g2))"

definition exotic_card_pack_cards ::
  "(Rarity \<Rightarrow> string list) \<Rightarrow> Member \<Rightarrow> rng \<Rightarrow> error + (CardImage list \<times> rng)" where
  "exotic_card_pack_cards roster member g =
     (let max_cards = 5
      in case randint 0 1 g of
           Inl e \<Rightarrow> Inl e
         | Inr (exotic_cards, g1) \<Rightarrow>
             (case randint 0 2 g1 of
                Inl e \<Rightarrow> Inl e
              | Inr (legendary_cards, g2) \<Rightarrow>
                  (case randint 0 1 g2 of
                     Inl e \<Rightarrow> Inl e
                   | Inr (mythic_cards, g3) \<Rightarrow>
                       (let epic_cards = max_cards - (exotic_cards + legendary_cards + mythic_cards)
                        in generate_card_pack_contents roster member
                             [(exotic, exotic_cards), (legendary, legendary_cards),
                              (mythic, mythic_cards), (epic, epic_cards)] [] g3))))"

text \<open>The handler map of \<^verbatim>\<open>ItemEntity.use\<close>; any other item is a \<^verbatim>\<open>KeyError\<close>.\<close>

definition card_pack_cards ::
  "(Rarity \<Rightarrow> string list) \<Rightarrow> Item \<Rightarrow> Member \<Rightarrow> rng \<Rightarrow> error + (CardImage list \<times> rng)" where
  "card_pack_cards roster it member g =
     (if it = rare_card_pack then rare_card_pack_cards roster member g
      else if it = epic_card_pack then epic_card_pack_cards roster member g
      else if it = mythic_card_pack then mythic_card_pack_cards roster member g
      else if it = legendary_card_pack then legendary_card_pack_cards roster member g
      else if it = exotic_card_pack then exotic_card_pack_cards roster member g
      else Inl KeyError)"

section \<open>Notions used in the statements\<close>

text \<open>
  A rarity is usable when \<^verbatim>\<open>get_random_character\<close> can draw a character for it;
  \<open>band_rarities\<close> lists the rarities of the cards a list of bands asks for.
\<close>

definition usable_rarity :: "(Rarity \<Rightarrow> string list) \<Rightarrow> Rarity \<Rightarrow> bool" where
  "usable_rarity roster r = (r \<noteq> exclusive_icicle \<and> roster r \<noteq> [])"

fun band_rarities :: "(Rarity \<times> int) list \<Rightarrow> Rarity list" where
  "band_rarities [] = []"
| "band_rarities ((r, amt) # rest) = replicate (nat amt) r @ band_rarities rest"

text \<open>
  The distribution the specification gives for the condition of a pack card, as a function
  of a uniform draw \<open>u\<close> of the unit interval: pristine on the first tenth, mint on the
  next eight tenths, near mint on the last tenth.
\<close>

definition spec_pack_condition :: "rat \<Rightarrow> Condition" where
  "spec_pack_condition u =
     (if u < 1 / 10 then pristine else if u < 9 / 10 then mint else near_mint)"


section \<open>Rounding and strings\<close>

text \<open>
  Python's \<^verbatim>\<open>round\<close> rounds to the nearest integer and a tie to the even one. The
  prices it is applied to are floats in the source and rationals here.
  \<^verbatim>\<open>str.casefold\<close> and \<^verbatim>\<open>str.title\<close> are modelled on ASCII letters.
\<close>

definition py_round :: "rat \<Rightarrow> int" where
  "py_round x =
     (let f = \<lfloor>x\<rfloor>; d = x - of_int f
      in if d < 1 / 2 then f else if 1 / 2 < d then f + 1 else if even f then f else f + 1)"

definition is_upper :: "char \<Rightarrow> bool" where
  "is_upper c = (65 \<le> (of_char c :: nat) \<and> (of_char c :: nat) \<le> 90)"

definition is_lower :: "char \<Rightarrow> bool" where
  "is_lower c = (97 \<le> (of_char c :: nat) \<and> (of_char c :: nat) \<le> 122)"

definition to_lower :: "char \<Rightarrow> char" where
  "to_lower c = (if is_upper c then char_of ((of_char c :: nat) + 32) else c)"

definition to_upper :: "char \<Rightarrow> char" where
  "to_upper c = (if is_lower c then char_of ((of_char c :: nat) - 32) else c)"

definition casefold :: "string \<Rightarrow> string" where
  "casefold s = map to_lower s"

fun title_from :: "bool \<Rightarrow> string \<Rightarrow> string" where
  "title_from previous_is_cased [] = []"
| "title_from previous_is_cased (c # cs) =
     (if previous_is_cased then to_lower c else to_upper c)
       # title_from (is_upper c \<or> is_lower c) cs"

definition title :: "string \<Rightarrow> string" where
  "title s = title_from False s"

section \<open>Fusion (source/cogs/forge.py)\<close>

text \<open>
  The levelling subsystem (\<^verbatim>\<open>psql.Level.handle_exp_addition\<close>) is outside the claims; the
  handlers that call it take it as the parameter \<open>handle_exp_addition\<close>.
\<close>

type_synonym exp_handler = "Interaction \<Rightarrow> int \<Rightarrow> world \<Rightarrow> (error + int) \<times> world"

definition get_cards_by_character_name :: "int \<Rightarrow> string \<Rightarrow> world \<Rightarrow> CardTable list option" where
  "get_cards_by_character_name uid name w =
     none_if_empty
       (filter (\<lambda>c. Some (owner_id c) = owner_pk uid w
                     \<and> (character_name c = casefold name \<or> character_name c = title name))
          (cards w))"

definition max_by_condition_level :: "CardTable list \<Rightarrow> CardTable" where
  "max_by_condition_level cs =
     fold (\<lambda>x best. if Condition_level (condition best) < Condition_level (condition x)
                     then x else best) (tl cs) (hd cs)"

definition confirm_forge_fusion ::
  "exp_handler \<Rightarrow> Interaction \<Rightarrow> UserTable \<Rightarrow> CardImage \<Rightarrow> CardTable \<Rightarrow> int \<Rightarrow> string \<Rightarrow> string
     \<Rightarrow> int \<Rightarrow> rng \<Rightarrow> world \<Rightarrow> error option \<times> world" where
  "confirm_forge_fusion handle_exp_addition i psql_user_table crd card1 star_cost first_card_id
     second_card_id now g w =
     (let uid = member_id (user i);
          cards_check = get_cards_by_card_id [first_card_id, second_card_id] w
      in if cards_check = None \<or> length (the cards_check) < 2 then
           (None, send (error_embed ''One of the cards you wanted to fuse no longer exists.'') w)
         else if star psql_user_table < star_cost then
           (None, send (error_embed ''You are currently don't have enough star.'') w)
         else
           (let w1 = set_star uid star_cost True w;
                w2 = delete_cards_by_card_id [first_card_id, second_card_id] w1;
                w3 = add_card
                       \<lparr>card_id = card_id crd, rarity = rarity crd, condition = condition crd,
                        special_rarity = special_rarity crd,
                        character_name = character_name crd, has_sleeve = False,
                        owner_id = owner_id card1, created_at = now, locked = False\<rparr> w2
            in case randint 1 3 g of
                 Inl e \<Rightarrow> (Some e, w3)
               | Inr (bonus, g1) \<Rightarrow>
                   (let reward_exp = py_round (of_int bonus + of_int star_cost / (3 / 2))
                    in case handle_exp_addition i reward_exp w3 of
                         (Inl e, w4) \<Rightarrow> (Some e, w4)
                       | (Inr _, w4) \<Rightarrow> (None, send (success_embed ''Fusion successful!'') w4))))"

definition forge_fusion ::
  "exp_handler \<Rightarrow> (Rarity \<Rightarrow> string list) \<Rightarrow> Interaction \<Rightarrow> string \<Rightarrow> string \<Rightarrow> int \<Rightarrow> rng
     \<Rightarrow> bool option \<Rightarrow> (world \<Rightarrow> world) \<Rightarrow> world \<Rightarrow> error option \<times> world" where
  "forge_fusion handle_exp_addition roster i first_card_id second_card_id now g view_value
     meanwhile w =
     (let uid = member_id (user i)
      in case get_table uid w of
           None \<Rightarrow> (None, send (error_embed ''You are currently not registered.'') w)
         | Some psql_user_table \<Rightarrow>
     (case get_item uid fusion_crystal w of
           None \<Rightarrow>
             (None, send (error_embed ''I couldn't find any fusion crystal in your inventory.'') w)
         | Some _ \<Rightarrow>
     (case get_cards_by_card_id [first_card_id, second_card_id] w of
           None \<Rightarrow>
             (None, send (error_embed ''I couldn't find any of the cards you provided.'') w)
         | Some cs \<Rightarrow>
     if length cs < 2 then
       (None, send (error_embed ''I couldn't find one of the cards you provided.'') w)
     else
       (let card1 = cs ! 0; card2 = cs ! 1
        in if owner_id card1 \<noteq> table_id psql_user_table
              \<or> owner_id card2 \<noteq> table_id psql_user_table then
             (None, send (error_embed ''You can only fuse cards you own.'') w)
           else if rarity card1 \<noteq> rarity card2 then
             (None, send (error_embed
                ''Both cards must have the same rarity in-order to be fused.'') w)
           else if special_rarity card1 \<noteq> special_rarity card2 \<and> special_rarity card1 = shiny then
             (None, send (error_embed ''Both cards must be shiny in-order to be fused.'') w)
           else if rarity card1 \<in> set get_valuable_rarities then
             (None, send (error_embed ''Both of these cards are too valuable to be fused.'') w)
           else
             (case Rarity_to_star (rarity card1) of
                Inl e \<Rightarrow> (Some e, w)
              | Inr star_cost0 \<Rightarrow>
             (case generate_card roster None (Some (rarity card1))
                     (Some (if condition card1 = condition card2 then condition card1
                            else downgrade (condition (max_by_condition_level cs))))
                     (Some (special_rarity card1)) 1 None False g of
                Inl e \<Rightarrow> (Some e, w)
              | Inr (generated, g1) \<Rightarrow>
             (case generated of
                [] \<Rightarrow> (Some IndexError, w)
              | crd # _ \<Rightarrow>
                  (let star_cost = (if special_rarity card1 \<noteq> shiny
                                    then py_round (of_int star_cost0 * (5 / 2))
                                    else star_cost0 * 20);
                       w1 = send (warning_embed
                                    ''Are you sure you want to fuse both of these cards?'') w
                   in wait_for_confirmation i view_value None
                        (confirm_forge_fusion handle_exp_addition i psql_user_table crd card1
                           star_cost first_card_id second_card_id now g1)
                        (meanwhile w1)))))))))"

section \<open>Crafting (source/cogs/forge.py)\<close>

text \<open>
  The craftable characters are read from \<^verbatim>\<open>craftable_characters.json\<close>, which is not part of
  the repository; an entity is given as a record, its dictionaries as association lists.
\<close>

record CraftableCharacterEntity =
  craft_name :: string
  craft_rarity :: Rarity
  required_characters :: "(string \<times> int) list"
  required_items :: "(Item \<times> int) list"

text \<open>
  The first loop of both confirmation steps: the first requirement that fails gives the
  rejection; the first step also collects the cards to consume.
\<close>

fun collect_required_cards ::
  "int \<Rightarrow> (string \<times> int) list \<Rightarrow> CardTable list \<Rightarrow> world \<Rightarrow> string + CardTable list" where
  "collect_required_cards uid [] required_cards w = Inr required_cards"
| "collect_required_cards uid ((required_character, required_amount) # rest) required_cards w =
     (case get_cards_by_character_name uid required_character w of
        None \<Rightarrow> Inl ''You are currently missing required character cards.''
      | Some owned \<Rightarrow>
          (let owned_cards = filter (\<lambda>c. \<not> locked c) owned
           in if int (length owned_cards) < required_amount then
                Inl ''You are currently missing required character cards.''
              else collect_required_cards uid rest
                     (required_cards @ take (nat required_amount) owned_cards) w))"

fun check_required_characters :: "int \<Rightarrow> (string \<times> int) list \<Rightarrow> world \<Rightarrow> string option" where
  "check_required_characters uid [] w = None"
| "check_required_characters uid ((required_character, required_amount) # rest) w =
     (case get_cards_by_character_name uid required_character w of
        None \<Rightarrow> Some ''You are currently missing required character cards.''
      | Some owned \<Rightarrow>
          (let owned_cards = filter (\<lambda>c. \<not> locked c) owned
           in if int (length owned_cards) < required_amount then
                Some ''You are currently missing required character cards.''
              else check_required_characters uid rest w))"

fun check_required_items :: "int \<Rightarrow> (Item \<times> int) list \<Rightarrow> world \<Rightarrow> string option" where
  "check_required_items uid [] w = None"
| "check_required_items uid ((required_item, required_amount) # rest) w =
     (case get_item uid required_item w of
        None \<Rightarrow> Some ''You are currently missing required items.''
      | Some row \<Rightarrow>
          if amount row < required_amount then Some ''You are currently missing required items.''
          else check_required_items uid rest w)"

fun remove_required_items :: "int \<Rightarrow> (Item \<times> int) list \<Rightarrow> world \<Rightarrow> world" where
  "remove_required_items uid [] w = w"
| "remove_required_items uid ((required_item, required_amount) # rest) w =
     remove_required_items uid rest (remove_item uid required_item required_amount w)"

definition reject_with_reset :: "Interaction \<Rightarrow> string \<Rightarrow> world \<Rightarrow> error option \<times> world" where
  "reject_with_reset i msg w =
     (case reset_command_cooldown i w of
        (Some err, w1) \<Rightarrow> (Some err, w1)
      | (None, w1) \<Rightarrow> (None, send (error_embed msg) w1))"

definition confirm_forge_craft_final ::
  "Interaction \<Rightarrow> int \<Rightarrow> CraftableCharacterEntity \<Rightarrow> CardTable list \<Rightarrow> CardTable \<Rightarrow> world
     \<Rightarrow> error option \<times> world" where
  "confirm_forge_craft_final i star_cost entity required_cards crafted_card_table w =
     (let uid = member_id (user i)
      in case check_required_characters uid (required_characters entity) w of
           Some msg \<Rightarrow> reject_with_reset i msg w
         | None \<Rightarrow>
             (case check_required_items uid (required_items entity) w of
                Some msg \<Rightarrow> reject_with_reset i msg w
              | None \<Rightarrow>
                  (let w1 = remove_required_items uid (required_items entity) w;
                       w2 = set_star uid star_cost True w1;
                       w3 = delete_cards_by_card_id (map card_id required_cards) w2;
                       w4 = add_card crafted_card_table w3
                   in (None, send (success_embed ''You crafted a card!'') w4))))"

definition condition_of_level :: "int \<Rightarrow> error + Condition" where
  "condition_of_level n =
     (if n = 1 then Inr damaged else if n = 2 then Inr poor else if n = 3 then Inr good
      else if n = 4 then Inr near_mint else if n = 5 then Inr mint
      else if n = 6 then Inr pristine else Inl KeyError)"

definition confirm_forge_craft ::
  "Interaction \<Rightarrow> UserTable \<Rightarrow> int \<Rightarrow> CraftableCharacterEntity \<Rightarrow> CardTable list \<Rightarrow> int \<Rightarrow> rng
     \<Rightarrow> bool option \<Rightarrow> (world \<Rightarrow> world) \<Rightarrow> world \<Rightarrow> error option \<times> world" where
  "confirm_forge_craft i psql_user_table star_cost entity required_cards0 now g view_value
     meanwhile w =
     (let uid = member_id (user i)
      in if star psql_user_table < star_cost then
           reject_with_reset i ''You currently don't have enough star.'' w
         else
     (case collect_required_cards uid (required_characters entity) required_cards0 w of
        Inl msg \<Rightarrow> reject_with_reset i msg w
      | Inr required_cards \<Rightarrow>
     (case check_required_items uid (required_items entity) w of
        Some msg \<Rightarrow> reject_with_reset i msg w
      | None \<Rightarrow>
     if required_cards = [] then (Some ZeroDivisionError, w)
     else
     (case condition_of_level
             (sum_list (map (\<lambda>c. Condition_level (condition c)) required_cards)
                div int (length required_cards)) of
        Inl e \<Rightarrow> (Some e, w)
      | Inr cond \<Rightarrow>
     (case generate_card_id g of
        Inl e \<Rightarrow> (Some e, w)
      | Inr (new_id, g1) \<Rightarrow>
     (case generate_special_rarity (Some (user i)) None g1 of
        Inl e \<Rightarrow> (Some e, w)
      | Inr (sr, g2) \<Rightarrow>
          (let crafted_card_table =
                 \<lparr>card_id = new_id, rarity = craft_rarity entity, condition = cond,
                  special_rarity = sr, character_name = craft_name entity, has_sleeve = False,
                  owner_id = table_id psql_user_table, created_at = now, locked = False\<rparr>;
               w1 = send (warning_embed ''Are you sure you want to craft this card?'') w
           in wait_for_confirmation i view_value None
                (confirm_forge_craft_final i star_cost entity required_cards crafted_card_table)
                (meanwhile w1))))))))"

definition forge_craft ::
  "(string \<Rightarrow> CraftableCharacterEntity option) \<Rightarrow> Interaction \<Rightarrow> string \<Rightarrow> int \<Rightarrow> rng
     \<Rightarrow> bool option \<Rightarrow> (world \<Rightarrow> world) \<Rightarrow> bool option \<Rightarrow> (world \<Rightarrow> world) \<Rightarrow> world
     \<Rightarrow> error option \<times> world" where
  "forge_craft to_entity i name now g view_value1 meanwhile1 view_value2 meanwhile2 w =
     (case get_table (member_id (user i)) w of
        None \<Rightarrow> (None, send (error_embed ''You are currently not registered.'') w)
      | Some psql_user_table \<Rightarrow>
          (case to_entity name of
             None \<Rightarrow> (None, send (error_embed ''This character is not craftable.'') w)
           | Some entity \<Rightarrow>
               (case Rarity_to_star (craft_rarity entity) of
                  Inl e \<Rightarrow> (Some e, w)
                | Inr star_cost0 \<Rightarrow>
                    (let star_cost = py_round (of_int star_cost0 * (5 / 2));
                         w1 = send (info_embed ''Crafting this card requires these resources:'') w
                     in wait_for_confirmation i view_value1 None
                          (confirm_forge_craft i psql_user_table star_cost entity [] now g
                             view_value2 meanwhile2)
                          (meanwhile1 w1)))))"

section \<open>Items (source/entity.py, source/cogs/item.py)\<close>

text \<open>
  The item definitions are read from \<^verbatim>\<open>items.json\<close>, which is not part of the repository:
  \<open>to_entity\<close> is the lookup \<^verbatim>\<open>ItemEntity.to_entity\<close>, \<open>None\<close> where the file has no entry
  (a \<^verbatim>\<open>KeyError\<close>).
\<close>

record ItemEntity =
  entity_name :: string
  description :: string
  price :: "int option"
  currency :: "Currency option"
  visible :: bool
  usable :: bool

definition purchasable :: "ItemEntity \<Rightarrow> bool" where
  "purchasable e = (price e \<noteq> None)"

definition ITEMS :: "Item list" where
  "ITEMS = [glistening_gem, fusion_crystal, card_sleeve, premium_drop, crown, backpack_upgrade,
            rare_card_pack, epic_card_pack, mythic_card_pack, legendary_card_pack,
            exotic_card_pack]"

fun Item_str :: "Item \<Rightarrow> string" where
  "Item_str glistening_gem = ''glistening gem''"
| "Item_str fusion_crystal = ''fusion crystal''"
| "Item_str card_sleeve = ''card sleeve''"
| "Item_str premium_drop = ''premium drop''"
| "Item_str crown = ''crown''"
| "Item_str backpack_upgrade = ''backpack upgrade''"
| "Item_str rare_card_pack = ''rare card pack''"
| "Item_str epic_card_pack = ''epic card pack''"
| "Item_str mythic_card_pack = ''mythic card pack''"
| "Item_str legendary_card_pack = ''legendary card pack''"
| "Item_str exotic_card_pack = ''exotic card pack''"

definition calculate_backpack_upgrade_price :: "int \<Rightarrow> int" where
  "calculate_backpack_upgrade_price level =
     (let base_price = 50 * level;
          p = ((of_int base_price * (of_int level / 2)) + (of_int base_price * 2)) - 50
      in py_round p)"

text \<open>
  The patron's price as \<^verbatim>\<open>item_shop\<close> and \<^verbatim>\<open>item_buy\<close> compute it:
  \<^verbatim>\<open>price -= price * 0.2; price = round(price)\<close>.
\<close>

definition patreon_price :: "int \<Rightarrow> int" where
  "patreon_price base_price = py_round (of_int base_price - of_int base_price * (2 / 10))"

definition item_shop_price :: "Member \<Rightarrow> int \<Rightarrow> int" where
  "item_shop_price m p = (if is_patreon m then patreon_price p else p)"

definition confirm_item_buy ::
  "Interaction \<Rightarrow> UserTable option \<Rightarrow> Item \<Rightarrow> Currency \<Rightarrow> int \<Rightarrow> int \<Rightarrow> int \<Rightarrow> world
     \<Rightarrow> error option \<times> world" where
  "confirm_item_buy i psql_user_table it cur total_price amount_to_buy backpack_lvl w =
     (let uid = member_id (user i)
      in case psql_user_table of
           None \<Rightarrow> (None, send (error_embed ''You are currently not registered.'') w)
         | Some t \<Rightarrow>
             if (star t < total_price \<and> cur = Currency_star)
                \<or> (silver t < total_price \<and> cur = Currency_silver)
                \<or> (gem t < total_price \<and> cur = Currency_gem)
                \<or> (voucher t < total_price \<and> cur = Currency_voucher) then
               (None, send (error_embed ''You currently don't have enough currency.'') w)
             else if it = backpack_upgrade \<and> backpack_lvl = 5 then
               (None, send (error_embed ''Your backpack is already at maximum level.'') w)
             else if cur = Currency_star then (Some ValueError, w)
             else
               (let w1 = (if cur = Currency_silver then set_silver uid total_price True w
                          else if cur = Currency_gem then set_gem uid total_price True w
                          else set_voucher uid total_price True w)
                in if it = backpack_upgrade then
                     (None, send (success_embed ''Purchase successful!'')
                              (increase_backpack_level uid w1))
                   else
                     (case add_item uid it amount_to_buy w1 of
                        (Some e, w2) \<Rightarrow> (Some e, w2)
                      | (None, w2) \<Rightarrow> (None, send (success_embed ''Purchase successful!'') w2))))"

definition item_buy ::
  "(Item \<Rightarrow> ItemEntity option) \<Rightarrow> Interaction \<Rightarrow> string \<Rightarrow> int \<Rightarrow> bool option \<Rightarrow> (world \<Rightarrow> world)
     \<Rightarrow> world \<Rightarrow> error option \<times> world" where
  "item_buy to_entity i item_name amount_to_buy0 view_value meanwhile w =
     (if amount_to_buy0 < 1 then
        (None, send (error_embed ''Please put a positive number as amount.'') w)
      else if list_ex (\<lambda>it. to_entity it = None) ITEMS then (Some KeyError, w)
      else
        (case find (\<lambda>it. purchasable (the (to_entity it)) \<and> Item_str it = casefold item_name)
                ITEMS of
           None \<Rightarrow> (None, send (error_embed ''That item is not in the shop.'') w)
         | Some it \<Rightarrow>
        (let item_entity = the (to_entity it)
         in case price item_entity of
              None \<Rightarrow> (Some AssertionError, w)
            | Some entity_price \<Rightarrow>
        if entity_price = 0 then (Some AssertionError, w)
        else
        (let base_price = (if is_patreon (user i) then patreon_price entity_price
                           else entity_price);
             total_price0 = entity_price * amount_to_buy0;
             uid = member_id (user i);
             psql_user_table = get_table uid w
         in case levels_get_table uid w of
              None \<Rightarrow> (Some AssertionError, w)
            | Some psql_levels_table \<Rightarrow>
        if current_level psql_levels_table < 5 then
          (None, send (error_embed
             ''You must be at least level 5 in-order to purchase from the shop.'') w)
        else
        (let backpack_lvl = (case psql_user_table of None \<Rightarrow> 1 | Some t \<Rightarrow> backpack_level t)
         in if it = backpack_upgrade \<and> backpack_lvl = 5 then
              (None, send (error_embed ''Your backpack is already at maximum level.'') w)
            else
        (let amount_to_buy = (if it = backpack_upgrade then 1 else amount_to_buy0);
             total_price = (if it = backpack_upgrade
                            then calculate_backpack_upgrade_price backpack_lvl
                            else total_price0)
         in case currency item_entity of
              None \<Rightarrow> (Some AssertionError, w)
            | Some cur \<Rightarrow>
                (let w1 = send (warning_embed ''Are you sure you want to buy this item?'') w
                 in wait_for_confirmation i view_value None
                      (confirm_item_buy i psql_user_table it cur total_price amount_to_buy
                         backpack_lvl)
                      (meanwhile w1))))))))"

subsection \<open>Opening a pack\<close>

fun rarity_levels :: "CardImage list \<Rightarrow> error + int list" where
  "rarity_levels [] = Inr []"
| "rarity_levels (c # cs) =
     (case Rarity_level (rarity c) of
        Inl e \<Rightarrow> Inl e
      | Inr l \<Rightarrow> (case rarity_levels cs of Inl e \<Rightarrow> Inl e | Inr ls \<Rightarrow> Inr (l # ls)))"

fun add_claimed_cards :: "int \<Rightarrow> int \<Rightarrow> CardImage list \<Rightarrow> world \<Rightarrow> world" where
  "add_claimed_cards pk now [] w = w"
| "add_claimed_cards pk now (c # cs) w =
     (if character_name c = ''Troll'' then add_claimed_cards pk now cs w
      else add_claimed_cards pk now cs
             (add_card \<lparr>card_id = card_id c, rarity = rarity c, condition = condition c,
                        special_rarity = special_rarity c, character_name = character_name c,
                        has_sleeve = False, owner_id = pk, created_at = now, locked = False\<rparr>
                w))"

text \<open>
  \<open>claimed\<close> is the value of the pack view when it ends: \<open>None\<close> when it timed out,
  \<open>Some True\<close> when the actor pressed Claim All.
\<close>

definition handle_card_pack ::
  "UserTable \<Rightarrow> Interaction \<Rightarrow> CardImage list \<Rightarrow> bool option \<Rightarrow> int \<Rightarrow> world
     \<Rightarrow> error option \<times> world" where
  "handle_card_pack new_row i cs claimed now w =
     (if cs = [] then (Some ValueError, w)
      else case rarity_levels cs of
             Inl e \<Rightarrow> (Some e, w)
           | Inr _ \<Rightarrow>
               (let w1 = send (custom_embed ''has opened a pack'') w
                in case claimed of
                     None \<Rightarrow>
                       (None, send (error_embed ''you took too long to claim your pack!'') w1)
                   | Some False \<Rightarrow> (None, w1)
                   | Some True \<Rightarrow>
                       (let uid = member_id (user i);
                            (_, w2) = register new_row now uid w1
                        in case get_table uid w2 of
                             None \<Rightarrow> (Some AssertionError, w2)
                           | Some t \<Rightarrow>
                               (None, send (custom_embed ''you opened a pack and claimed these cards'')
                                        (add_claimed_cards (table_id t) now cs w2)))))"

definition pack_items :: "Item list" where
  "pack_items = [rare_card_pack, epic_card_pack, mythic_card_pack, legendary_card_pack,
                 exotic_card_pack]"

definition confirm_item_use ::
  "(Item \<Rightarrow> ItemEntity option) \<Rightarrow> (Rarity \<Rightarrow> string list) \<Rightarrow> UserTable \<Rightarrow> Interaction \<Rightarrow> Item
     \<Rightarrow> int \<Rightarrow> int \<Rightarrow> rng \<Rightarrow> bool option \<Rightarrow> world \<Rightarrow> error option \<times> world" where
  "confirm_item_use to_entity roster new_row i it amount_to_use now g claimed w =
     (let uid = member_id (user i)
      in case get_item uid it w of
           None \<Rightarrow> (None, send (error_embed ''I couldn't find any of that item in your inventory.'') w)
         | Some item_result \<Rightarrow>
     if amount item_result < amount_to_use then
       (None, send (error_embed ''You currently don't have enough of that item in your inventory.'')
                w)
     else
     (case get_table uid w of
        None \<Rightarrow> (None, send (error_embed ''You are currently not registered.'') w)
      | Some psql_user_table \<Rightarrow>
     (case get_cards uid w of
        None \<Rightarrow> (Some AssertionError, w)
      | Some cs \<Rightarrow>
     if it \<in> set pack_items \<and> backpack_level psql_user_table < 5
        \<and> int (length cs) > backpack_level psql_user_table * 500 then
       (None, send (error_embed
          ''Your backpack is full! Consider burning cards or upgrading your backpack.'') w)
     else
       (let (w1, g1) =
              (if has_minimum_patreon_role (user i) PatreonRole_uncommon then
                 (let (u, g') = random_random g
                  in if u < 9 / 10 then (remove_item uid it amount_to_use w, g') else (w, g'))
               else (remove_item uid it amount_to_use w, g))
        in case to_entity it of
             None \<Rightarrow> (Some KeyError, w1)
           | Some item_entity \<Rightarrow>
               if usable item_entity then
                 (case card_pack_cards roster it (user i) g1 of
                    Inl e \<Rightarrow> (Some e, w1)
                  | Inr (generated, _) \<Rightarrow> handle_card_pack new_row i generated claimed now w1)
               else (None, w1)))))"

section \<open>Grabbing a card from a drop (source/cogs/card.py)\<close>

text \<open>
  A drop view holds the dropped cards; the button with custom id \<^verbatim>\<open>drop_button.i\<close> stands
  for card \<open>i\<close> and keeps the list of indices already grabbed through it. The cooldown of
  the buttons is the mapping \<^verbatim>\<open>BUTTON_COOLDOWN_CACHE\<close> (one token per six seconds).
\<close>

record CardDropView =
  view_author :: Member
  view_weight :: WeightT
  view_cards :: "CardImage list"

record CardDropButton =
  button_index :: nat
  grabbed_cards :: "nat list"
  disabled :: bool

definition BUTTON_COOLDOWN_CACHE :: Command where
  "BUTTON_COOLDOWN_CACHE =
     \<lparr>command_name = ''BUTTON_COOLDOWN_CACHE'', extras_cooldown = Some (1, 6)\<rparr>"

definition reset_cooldown :: "Interaction \<Rightarrow> Command \<Rightarrow> world \<Rightarrow> world" where
  "reset_cooldown i mapping w =
     (case extras_cooldown mapping of
        None \<Rightarrow> w
      | Some rp \<Rightarrow> put_bucket mapping (user i) (reset (get_bucket mapping rp (user i) w)) w)"

definition troll_text :: "string list" where
  "troll_text =
     [''Did you really just grab me?'', ''LOL you just got trolled!'',
      ''You must be trolling, you got a Troll card!'',
      ''Looks like fate dealt you a Troll card, better luck next time.'',
      ''Looks like the Troll is laughing at your success, congrats on the card!'',
      ''You got a wild card in the form of a Troll, better use it wisely.'',
      ''Looks like the Troll just played his hand, and you were the lucky one to grab it.'',
      ''Looks like the Troll is on your side today, congrats on the card!'']"

definition CardDropButton_callback ::
  "exp_handler \<Rightarrow> UserTable \<Rightarrow> CardDropButton \<Rightarrow> CardDropView option \<Rightarrow> Interaction \<Rightarrow> int \<Rightarrow> rng
     \<Rightarrow> world \<Rightarrow> error option \<times> CardDropButton \<times> world" where
  "CardDropButton_callback handle_exp_addition new_row button view_opt i now g w =
     (case view_opt of
        None \<Rightarrow> (None, button, w)
      | Some view \<Rightarrow>
     (let uid = member_id (user i);
          (_, w1) = register new_row now uid w
      in case get_table uid w1 of
           None \<Rightarrow> (Some AssertionError, button, w1)
         | Some psql_user_table \<Rightarrow>
     (let card_count = (case get_cards uid w1 of None \<Rightarrow> 0 | Some cs \<Rightarrow> int (length cs));
          backpack_lvl = backpack_level psql_user_table
      in if card_count \<ge> backpack_lvl * 500 then
           (None, button,
            send (error_embed
              ''Your backpack is full! Consider burning cards or upgrading your backpack.'') w1)
         else
     (let selected = button_index button
      in if selected \<in> set (grabbed_cards button) then
           (None, button,
            send (error_embed ''That card has already been grabbed.'')
              (reset_cooldown i BUTTON_COOLDOWN_CACHE w1))
         else
     (let button1 = button\<lparr>grabbed_cards := grabbed_cards button @ [selected], disabled := True\<rparr>
      in if \<not> selected < length (view_cards view) then (Some IndexError, button1, w1)
         else
     (let crd = view_cards view ! selected
      in if character_name crd = ''Troll'' then
           (case random_choice troll_text g of
              Inl e \<Rightarrow> (Some e, button1, w1)
            | Inr (txt, _) \<Rightarrow> (None, button1, send (error_embed txt) w1))
         else
     (let (pk, w2) = register new_row now uid w1;
          w3 = add_card \<lparr>card_id = card_id crd, rarity = rarity crd, condition = condition crd,
                          special_rarity = special_rarity crd,
                          character_name = character_name crd, has_sleeve = False,
                          owner_id = pk, created_at = now, locked = False\<rparr> w2
      in case to_silver (rarity crd) of
           Inl e \<Rightarrow> (Some e, button1, w3)
         | Inr (silver1, silver2) \<Rightarrow>
     (case randint (silver1 div 3) (silver2 div 3) g of
        Inl e \<Rightarrow> (Some e, button1, w3)
      | Inr (reward_silver, g1) \<Rightarrow>
     (let w4 = set_silver uid reward_silver False w3
      in case randint 1 3 g1 of
           Inl e \<Rightarrow> (Some e, button1, w4)
         | Inr (reward_exp, _) \<Rightarrow>
     (case handle_exp_addition i reward_exp w4 of
        (Inl e, w5) \<Rightarrow> (Some e, button1, w5)
      | (Inr _, w5) \<Rightarrow>
          if map_of (weight_rarity (view_weight view)) (rarity crd) = None
             \<or> map_of (weight_condition (view_weight view)) (condition crd) = None
             \<or> (special_rarity crd = shiny
                 \<and> map_of (weight_special_rarity (view_weight view)) shiny = None)
          then (Some KeyError, button1, w5)
          else (None, button1, send (custom_embed ''took a card'') w5)))))))))))"
section \<open>Example states\<close>

definition example_user :: UserTable where
  "example_user =
     \<lparr>table_id = 1, user_id = 7, silver = 0, star = 0, gem = 0, voucher = 0,
      registered_at = 0, backpack_level = 1\<rparr>"

definition example_card :: CardTable where
  "example_card =
     \<lparr>card_id = ''abc123'', rarity = common, condition = good, special_rarity = unknown,
      character_name = ''Bob'', has_sleeve = False, owner_id = 1, created_at = 0,
      locked = False\<rparr>"

definition example_world :: world where
  "example_world =
     \<lparr>users = [example_user], inventory = [], cards = [example_card], levels = [],
      cooldowns = Map.empty, sent = []\<rparr>"

definition burn_command :: Command where
  "burn_command = \<lparr>command_name = ''burn'', extras_cooldown = Some (1, 60)\<rparr>"

definition example_member :: Member where
  "example_member = \<lparr>member_id = 7, roles = []\<rparr>"

definition burn_interaction :: Interaction where
  "burn_interaction = \<lparr>user = example_member, command = Some burn_command\<rparr>"

definition example_roster :: "Rarity \<Rightarrow> string list" where
  "example_roster r = [''Bob'']"

definition example_patron :: Member where
  "example_patron = \<lparr>member_id = 7, roles = [1099000179723604068]\<rparr>"

definition no_exp :: exp_handler where
  "no_exp i reward_exp w = (Inr reward_exp, w)"

definition plain_card :: CardTable where
  "plain_card = example_card\<lparr>card_id := ''aaaaaa''\<rparr>"

definition shiny_card :: CardTable where
  "shiny_card = example_card\<lparr>card_id := ''bbbbbb'', special_rarity := shiny\<rparr>"

definition fusion_world :: world where
  "fusion_world =
     \<lparr>users = [example_user\<lparr>star := 100\<rparr>],
      inventory = [\<lparr>inv_owner_id = 1, item = fusion_crystal, amount = 1\<rparr>],
      cards = [plain_card, shiny_card], levels = [], cooldowns = Map.empty, sent = []\<rparr>"

definition fusion_interaction :: Interaction where
  "fusion_interaction =
     \<lparr>user = example_member,
      command = Some \<lparr>command_name = ''fusion'', extras_cooldown = None\<rparr>\<rparr>"

definition craft_interaction :: Interaction where
  "craft_interaction =
     \<lparr>user = example_member,
      command = Some \<lparr>command_name = ''craft'', extras_cooldown = Some (1, 60)\<rparr>\<rparr>"

definition example_entity :: CraftableCharacterEntity where
  "example_entity =
     \<lparr>craft_name = ''King'', craft_rarity = rare, required_characters = [(''Bob'', 1)],
      required_items = [(crown, 1)]\<rparr>"

definition crafted_card :: CardTable where
  "crafted_card =
     \<lparr>card_id = ''cccccc'', rarity = rare, condition = good, special_rarity = unknown,
      character_name = ''King'', has_sleeve = False, owner_id = 1, created_at = 5,
      locked = False\<rparr>"

definition craft_world :: world where
  "craft_world =
     \<lparr>users = [example_user],
      inventory = [\<lparr>inv_owner_id = 1, item = crown, amount = 1\<rparr>],
      cards = [example_card], levels = [], cooldowns = Map.empty, sent = []\<rparr>"

definition shop_table :: "Item \<Rightarrow> ItemEntity option" where
  "shop_table it =
     Some \<lparr>entity_name = Item_str it, description = [],
           price = (if it = crown then Some 100 else None),
           currency = Some Currency_silver, visible = True, usable = False\<rparr>"

definition shop_world :: world where
  "shop_world =
     \<lparr>users = [example_user\<lparr>silver := 1000\<rparr>], inventory = [], cards = [],
      levels = [\<lparr>level_user_id = 1, current_exp = 0, current_level = 5, max_exp = 67\<rparr>],
      cooldowns = Map.empty, sent = []\<rparr>"

definition patron_interaction :: Interaction where
  "patron_interaction =
     \<lparr>user = example_patron,
      command = Some \<lparr>command_name = ''buy'', extras_cooldown = None\<rparr>\<rparr>"

definition card_code :: "nat \<Rightarrow> string" where
  "card_code n = map (\<lambda>k. char_of (48 + (n div 10 ^ k) mod 10)) [5, 4, 3, 2, 1, 0]"

definition full_cards :: "CardTable list" where
  "full_cards = map (\<lambda>n. example_card\<lparr>card_id := card_code n\<rparr>) [0..<2500]"

definition full_world :: world where
  "full_world =
     \<lparr>users = [example_user\<lparr>backpack_level := 5\<rparr>], inventory = [], cards = full_cards,
      levels = [], cooldowns = Map.empty, sent = []\<rparr>"

definition drop_view :: CardDropView where
  "drop_view =
     \<lparr>view_author = example_member, view_weight = BasicWeight,
      view_cards = [\<lparr>card_id = ''zzzzzz'', rarity = common, condition = good,
                     special_rarity = unknown, character_name = ''Bob'', has_sleeve = False\<rparr>]\<rparr>"

definition drop_button :: CardDropButton where
  "drop_button = \<lparr>button_index = 0, grabbed_cards = [], disabled = False\<rparr>"

definition grab_interaction :: Interaction where
  "grab_interaction = \<lparr>user = example_member, command = None\<rparr>"

section \<open>Properties\<close>













text \<open>
  C6: burning a locked card, or a card of a too valuable rarity, under the cooldown-gated
  burn command ends with one error message, changes no user, inventory or card row, and
  resets the actor's cooldown bucket of the command (its tokens are back at the rate).
\<close>

theorem burn_rejected_unburnable:
  assumes "locked crd \<or> rarity crd \<in> set get_valuable_rarities"
    and "command i = Some cmd" and "extras_cooldown cmd = Some rp"
  shows "\<exists>msg w'. handle_single_card_burn i crd now g view_value meanwhile w = (None, w')
           \<and> sent w' = sent w @ [error_embed msg]
           \<and> users w' = users w \<and> inventory w' = inventory w \<and> cards w' = cards w
           \<and> cooldowns w' =
               (cooldowns w)((command_name cmd, member_id (user i)) \<mapsto>
                  reset (get_bucket cmd rp (user i) w))
           \<and> tokens (reset (get_bucket cmd rp (user i) w)) = rate (get_bucket cmd rp (user i) w)"
  using assms
  by (auto simp add: handle_single_card_burn_def reset_command_cooldown_def send_def
      put_bucket_def reset_def)

theorem burn_rejected_unburnable_witness:
  "(locked (example_card\<lparr>locked := True\<rparr>)
      \<or> rarity (example_card\<lparr>locked := True\<rparr>) \<in> set get_valuable_rarities)
   \<and> command burn_interaction = Some burn_command
   \<and> extras_cooldown burn_command = Some (1, 60)
   \<and> (\<exists>msg w'.
          handle_single_card_burn burn_interaction (example_card\<lparr>locked := True\<rparr>) 864000
            (\<lambda>_. 15) (Some True) id example_world = (None, w')
          \<and> sent w' = sent example_world @ [error_embed msg]
          \<and> users w' = users example_world \<and> inventory w' = inventory example_world
          \<and> cards w' = cards example_world
          \<and> cooldowns w' =
              (cooldowns example_world)
                ((command_name burn_command, member_id (user burn_interaction)) \<mapsto>
                   reset (get_bucket burn_command (1, 60) (user burn_interaction) example_world))
          \<and> tokens (reset (get_bucket burn_command (1, 60) (user burn_interaction)
                               example_world))
              = rate (get_bucket burn_command (1, 60) (user burn_interaction) example_world))"
proof -
  have h1: "locked (example_card\<lparr>locked := True\<rparr>)
              \<or> rarity (example_card\<lparr>locked := True\<rparr>) \<in> set get_valuable_rarities"
    by simp
  have h2: "command burn_interaction = Some burn_command"
    by (simp add: burn_interaction_def)
  have h3: "extras_cooldown burn_command = Some (1, 60)"
    by (simp add: burn_command_def)
  show ?thesis
    using h1 h2 h3 burn_rejected_unburnable [OF h1 h2 h3] by blast
qed

lemma random_random_range:
  "random_random g = (u, g') \<Longrightarrow> 0 \<le> u \<and> u < 1 \<and> g' = rng_tail g"
proof -
  assume a: "random_random g = (u, g')"
  have "(of_nat (g 0 mod 2 ^ 53) :: rat) < of_nat (2 ^ 53)"
    unfolding of_nat_less_iff by simp
  then have "(of_nat (g 0 mod 2 ^ 53) :: rat) / 2 ^ 53 < 1" by simp
  with a show ?thesis by (auto simp add: random_random_def)
qed

lemma bisect_pack:
  "bisect_right [10, 90, 100] x 0 (Suc (Suc 0)) =
     (if x < 10 then 0 else if x < 90 then 1 else 2)"
  by (simp add: bisect_right.simps Let_def)

lemma pack_condition_choice:
  "random_choices (map fst pack_conditions) (map snd pack_conditions) g =
     Inr (let u = fst (random_random g)
          in if u < 1 / 10 then pristine else if u < 9 / 10 then mint else near_mint,
          rng_tail g)"
proof -
  obtain u g1 where rr: "random_random g = (u, g1)"
    by (cases "random_random g")
  have g1: "g1 = rng_tail g"
    using rr by (simp add: random_random_def)
  have acc: "accumulate 0 (map snd pack_conditions) = [10, 90, 100]"
    by (simp add: pack_conditions_def)
  have pop: "map fst pack_conditions = [pristine, mint, near_mint]"
    by (simp add: pack_conditions_def)
  have "random_choices (map fst pack_conditions) (map snd pack_conditions) g =
          Inr ([pristine, mint, near_mint] ! bisect_right [10, 90, 100] (u * 100) 0 (Suc (Suc 0)),
               g1)"
    unfolding random_choices_def acc pop by (simp add: rr)
  moreover have "[pristine, mint, near_mint] ! bisect_right [10, 90, 100] (u * 100) 0 (Suc (Suc 0))
                   = (if u < 1 / 10 then pristine else if u < 9 / 10 then mint else near_mint)"
  proof -
    have a: "(u * 100 < 10) = (u < 1 / 10)" by auto
    have b: "(u * 100 < 90) = (u < 9 / 10)" by auto
    show ?thesis unfolding bisect_pack a b by simp
  qed
  ultimately show ?thesis
    using rr g1 by (simp add: Let_def)
qed

lemma pack_condition_in_set:
  assumes "random_choices (map fst pack_conditions) (map snd pack_conditions) g = Inr (c, g')"
  shows "c \<in> {pristine, mint, near_mint}"
proof -
  have "c = (let u = fst (random_random g)
             in if u < 1 / 10 then pristine else if u < 9 / 10 then mint else near_mint)"
    using assms unfolding pack_condition_choice by simp
  then show ?thesis
    unfolding Let_def by (cases "fst (random_random g) < 1 / 10";
                          cases "fst (random_random g) < 9 / 10") simp_all
qed

lemma generate_one_card_pack_condition:
  assumes "generate_one_card roster member r c sr weight True g = Inr (crd, g')"
  shows "condition crd \<in> {pristine, mint, near_mint}"
proof -
  from assms obtain fc g5 g6 where
    ch: "random_choices (map fst pack_conditions) (map snd pack_conditions) g5 = Inr (fc, g6)"
    and c: "condition crd = fc"
    unfolding generate_one_card_def
    by (fastforce split: sum.splits prod.splits)
  from pack_condition_in_set [OF ch] c show ?thesis by simp
qed

lemma generate_card_loop_pack_condition:
  "generate_card_loop roster member r c sr weight True n acc g = Inr (cs, g')
   \<Longrightarrow> \<forall>crd \<in> set acc. condition crd \<in> {pristine, mint, near_mint}
   \<Longrightarrow> \<forall>crd \<in> set cs. condition crd \<in> {pristine, mint, near_mint}"
proof (induction n arbitrary: acc g)
  case 0
  then show ?case by simp
next
  case (Suc n)
  from Suc.prems(1) obtain crd g1 where
    one: "generate_one_card roster member r c sr weight True g = Inr (crd, g1)" and
    rest: "generate_card_loop roster member r c sr weight True n (acc @ [crd]) g1 = Inr (cs, g')"
    by (auto split: sum.splits)
  have "\<forall>x \<in> set (acc @ [crd]). condition x \<in> {pristine, mint, near_mint}"
    using Suc.prems(2) generate_one_card_pack_condition [OF one] by auto
  with Suc.IH [OF rest] show ?case by blast
qed

lemma unit_index_in_range:
  assumes "0 \<le> (u::rat)" and "u < 1" and "0 < n"
  shows "nat \<lfloor>u * of_nat n\<rfloor> < n"
proof -
  have "u * of_nat n < of_nat n"
    using assms by simp
  then have "\<lfloor>u * of_nat n\<rfloor> < int n"
    by (simp add: floor_less_iff)
  moreover have "0 \<le> \<lfloor>u * of_nat n\<rfloor>"
    using assms by simp
  ultimately show ?thesis by linarith
qed

lemma random_choices_k_ok:
  assumes "population \<noteq> []"
  shows "\<exists>xs g'. random_choices_k population k g = Inr (xs, g') \<and> length xs = k"
proof (induction k arbitrary: g)
  case 0
  show ?case by simp
next
  case (Suc k)
  obtain u g1 where rr: "random_random g = (u, g1)"
    by (cases "random_random g")
  from random_random_range [OF rr] have u: "0 \<le> u" "u < 1" by simp_all
  have idx: "nat \<lfloor>u * of_nat (length population)\<rfloor> < length population"
    using unit_index_in_range [OF u] assms by simp
  from Suc.IH [of g1] obtain xs g2 where
    "random_choices_k population k g1 = Inr (xs, g2)" "length xs = k" by blast
  then show ?case using rr idx by simp
qed

lemma generate_card_id_ok: "\<exists>cid g'. generate_card_id g = Inr (cid, g')"
  using random_choices_k_ok [of card_id_alphabet 6 g]
  by (auto simp add: generate_card_id_def card_id_alphabet_def)

lemma funpow_rng_tail: "(rng_tail ^^ k) g = (\<lambda>i. g (i + k))"
  by (induction k) (simp_all add: rng_tail_def)

lemma rng_tail_compose: "(rng_tail ^^ a) ((rng_tail ^^ b) g) = (rng_tail ^^ (a + b)) g"
  by (simp add: funpow_add)

lemma random_choices_tail:
  "random_choices population weights g = Inr (x, g') \<Longrightarrow> g' = rng_tail g"
  by (auto simp add: random_choices_def random_random_def Let_def split: if_splits)

lemma random_choice_tail: "random_choice seq g = Inr (x, g') \<Longrightarrow> g' = rng_tail g"
  by (auto simp add: random_choice_def split: if_splits)

lemma random_choices_k_tail:
  "random_choices_k population k g = Inr (xs, g') \<Longrightarrow> g' = (rng_tail ^^ k) g"
proof (induction k arbitrary: g xs)
  case 0
  then show ?case by simp
next
  case (Suc k)
  from Suc.prems obtain rest where
    "random_choices_k population k (rng_tail g) = Inr (rest, g')"
    by (auto simp add: random_random_def Let_def split: if_splits sum.splits)
  from Suc.IH [OF this] show ?case
    by (simp add: funpow_swap1)
qed

lemma generate_rarity_tail: "generate_rarity weight g = Inr (x, g') \<Longrightarrow> g' = rng_tail g"
  unfolding generate_rarity_def Let_def by (rule random_choices_tail)

lemma generate_condition_tail: "generate_condition weight g = Inr (x, g') \<Longrightarrow> g' = rng_tail g"
  unfolding generate_condition_def Let_def by (rule random_choices_tail)

lemma generate_special_rarity_tail:
  "generate_special_rarity member weight g = Inr (x, g') \<Longrightarrow> g' = rng_tail g"
  using random_choices_tail
  by (fastforce simp add: generate_special_rarity_def split: sum.splits)

lemma optional_draw_tail:
  assumes "(case opt of Some x \<Rightarrow> Inr (x, g) | None \<Rightarrow> draw g) = Inr (y, g')"
    and "\<And>y g'. draw g = Inr (y, g') \<Longrightarrow> g' = rng_tail g"
  shows "\<exists>k. g' = (rng_tail ^^ k) g"
proof (cases opt)
  case None
  with assms have "g' = (rng_tail ^^ 1) g" by simp
  then show ?thesis by blast
next
  case (Some x)
  with assms(1) have "g' = (rng_tail ^^ 0) g" by simp
  then show ?thesis by blast
qed

lemma get_random_character_tail:
  assumes "get_random_character roster ro g = Inr (nm, g')"
  shows "\<exists>k. g' = (rng_tail ^^ k) g"
proof (cases "ro = None \<or> the ro \<in> set get_exclusive_rarities")
  case True
  with assms obtain r g1 cl where
    a: "random_choice all_rarities g = Inr (r, g1)" and
    b: "random_choice cl g1 = Inr (nm, g')"
    by (auto simp add: get_random_character_def split: sum.splits)
  have "g' = (rng_tail ^^ 2) g"
    using random_choice_tail [OF a] random_choice_tail [OF b]
    by (simp add: numeral_2_eq_2)
  then show ?thesis by blast
next
  case False
  with assms obtain cl where "random_choice cl g = Inr (nm, g')"
    by (auto simp add: get_random_character_def split: sum.splits)
  then have "g' = (rng_tail ^^ 1) g"
    using random_choice_tail by simp
  then show ?thesis by blast
qed

lemma pack_condition_spec:
  "random_choices (map fst pack_conditions) (map snd pack_conditions) g =
     Inr (spec_pack_condition (fst (random_random g)), rng_tail g)"
  by (simp add: pack_condition_choice spec_pack_condition_def Let_def)

lemma generate_one_card_pack_draw:
  assumes "generate_one_card roster member r c sr weight True g = Inr (crd, g')"
  shows "\<exists>k. g' = (rng_tail ^^ Suc k) g
           \<and> condition crd = spec_pack_condition (fst (random_random ((rng_tail ^^ k) g)))"
proof -
  from assms obtain cr g1 cc g2 csr g3 nm g4 gid g5 where
    s1: "(case r of Some x \<Rightarrow> Inr (x, g) | None \<Rightarrow> generate_rarity weight g) = Inr (cr, g1)" and
    s2: "(case c of Some x \<Rightarrow> Inr (x, g1) | None \<Rightarrow> generate_condition weight g1)
           = Inr (cc, g2)" and
    s3: "(case sr of Some x \<Rightarrow> Inr (x, g2) | None \<Rightarrow> generate_special_rarity member weight g2)
           = Inr (csr, g3)" and
    s4: "get_random_character roster (Some cr) g3 = Inr (nm, g4)" and
    s5: "generate_card_id g4 = Inr (gid, g5)" and
    s6: "random_choices (map fst pack_conditions) (map snd pack_conditions) g5
           = Inr (condition crd, g')"
    unfolding generate_one_card_def
    by (fastforce split: sum.splits prod.splits)
  have "\<exists>k. g1 = (rng_tail ^^ k) g"
    by (rule optional_draw_tail [where draw = "generate_rarity weight", OF s1])
       (rule generate_rarity_tail)
  then obtain k1 where k1: "g1 = (rng_tail ^^ k1) g" by blast
  have "\<exists>k. g2 = (rng_tail ^^ k) g1"
    by (rule optional_draw_tail [where draw = "generate_condition weight", OF s2])
       (rule generate_condition_tail)
  then obtain k2 where k2: "g2 = (rng_tail ^^ k2) g1" by blast
  have "\<exists>k. g3 = (rng_tail ^^ k) g2"
    by (rule optional_draw_tail [where draw = "generate_special_rarity member weight", OF s3])
       (rule generate_special_rarity_tail)
  then obtain k3 where k3: "g3 = (rng_tail ^^ k3) g2" by blast
  obtain k4 where k4: "g4 = (rng_tail ^^ k4) g3"
    using get_random_character_tail [OF s4] by blast
  have k5: "g5 = (rng_tail ^^ 6) g4"
    using s5 random_choices_k_tail unfolding generate_card_id_def by blast
  define k where "k = 6 + k4 + k3 + k2 + k1"
  have g5: "g5 = (rng_tail ^^ k) g"
    unfolding k5 k4 k3 k2 k1 rng_tail_compose k_def by (simp add: add.assoc)
  from s6 have "condition crd = spec_pack_condition (fst (random_random g5))" "g' = rng_tail g5"
    unfolding pack_condition_spec by simp_all
  then have "g' = (rng_tail ^^ Suc k) g
      \<and> condition crd = spec_pack_condition (fst (random_random ((rng_tail ^^ k) g)))"
    unfolding g5 by simp
  then show ?thesis ..
qed

lemma generate_card_loop_pack_draws:
  "generate_card_loop roster member r c sr weight True n acc g = Inr (cs, g') \<Longrightarrow>
   \<exists>new ks m. cs = acc @ new \<and> length ks = length new \<and> sorted_wrt (<) ks
      \<and> (\<forall>k \<in> set ks. k < m) \<and> g' = (rng_tail ^^ m) g
      \<and> map condition new =
          map (\<lambda>k. spec_pack_condition (fst (random_random ((rng_tail ^^ k) g)))) ks"
proof (induction n arbitrary: acc g)
  case 0
  then have "cs = acc @ []" "g' = (rng_tail ^^ 0) g" by simp_all
  then show ?case
    by (intro exI [of _ "[]"] exI [of _ 0]) simp
next
  case (Suc n)
  from Suc.prems obtain crd g1 where
    one: "generate_one_card roster member r c sr weight True g = Inr (crd, g1)" and
    rest: "generate_card_loop roster member r c sr weight True n (acc @ [crd]) g1 = Inr (cs, g')"
    by (auto split: sum.splits)
  from generate_one_card_pack_draw [OF one] obtain k0 where
    g1: "g1 = (rng_tail ^^ Suc k0) g" and
    c0: "condition crd = spec_pack_condition (fst (random_random ((rng_tail ^^ k0) g)))"
    by blast
  from Suc.IH [OF rest] obtain new ks m where
    cs: "cs = (acc @ [crd]) @ new" and len: "length ks = length new" and
    srt: "sorted_wrt (<) ks" and bnd: "\<forall>k \<in> set ks. k < m" and
    g': "g' = (rng_tail ^^ m) g1" and
    cond: "map condition new =
             map (\<lambda>k. spec_pack_condition (fst (random_random ((rng_tail ^^ k) g1)))) ks"
    by blast
  let ?ks = "k0 # map (\<lambda>k. k + Suc k0) ks"
  have a: "cs = acc @ (crd # new)" using cs by simp
  have b: "length ?ks = length (crd # new)" using len by simp
  have c: "sorted_wrt (<) ?ks" using srt by (simp add: sorted_wrt_map)
  have d: "\<forall>k \<in> set ?ks. k < m + Suc k0" using bnd by auto
  have e: "g' = (rng_tail ^^ (m + Suc k0)) g"
    unfolding g' g1 rng_tail_compose ..
  have f: "map condition (crd # new) =
             map (\<lambda>k. spec_pack_condition (fst (random_random ((rng_tail ^^ k) g)))) ?ks"
    using c0 cond unfolding g1 rng_tail_compose by (simp add: comp_def)
  from a b c d e f show ?case by blast
qed

lemma constant_tape: "(rng_tail ^^ k) (\<lambda>_. v) = (\<lambda>_. v)"
  by (simp add: funpow_rng_tail)

lemma constant_tape_draws:
  "spec_pack_condition (fst (random_random (\<lambda>_. 0))) = pristine"
  "spec_pack_condition (fst (random_random (\<lambda>_. 2 ^ 52))) = mint"
  "spec_pack_condition (fst (random_random (\<lambda>_. 2 ^ 53 - 1))) = near_mint"
  by (simp_all add: spec_pack_condition_def random_random_def)

lemma constant_tape_card:
  "\<exists>cs g'. generate_card example_roster None (Some rare) (Some damaged) (Some unknown) 1 None
              True (\<lambda>_. v) = Inr (cs, g') \<and> length cs = 1"
proof -
  obtain cid g5 where cid: "generate_card_id (rng_tail (\<lambda>_. v)) = Inr (cid, g5)"
    using generate_card_id_ok by blast
  then show ?thesis
    by (simp add: generate_card_def generate_one_card_def get_random_character_def
        get_exclusive_rarities_def rarity_map_def random_choice_def example_roster_def
        pack_condition_choice)
qed

lemma singleton_map:
  assumes "length ks = length cs" and "length cs = 1"
    and "map f cs = map (\<lambda>k. x) ks"
  shows "map f cs = [x]"
proof -
  obtain k0 where "ks = [k0]"
    using assms(1,2) by (cases ks) auto
  with assms(3) show ?thesis by simp
qed

text \<open>
  C9: in pack mode the condition of every generated card is the specification's
  distribution applied to a uniform draw of its own: the cards read pairwise distinct
  cells of the random tape, each among the cells the call consumes, and the condition of
  a card is pristine when its draw is below \<open>1/10\<close>, mint when it is below \<open>9/10\<close> and near
  mint otherwise, whatever weight table and fixed condition are passed. So no card of a
  pack is good, poor or damaged.
\<close>

theorem pack_mode_condition:
  assumes "generate_card roster member r c sr amt weight True g = Inr (cs, g')"
  shows "(\<exists>ks m. length ks = length cs \<and> sorted_wrt (<) ks \<and> (\<forall>k \<in> set ks. k < m)
            \<and> g' = (rng_tail ^^ m) g
            \<and> map condition cs =
                map (\<lambda>k. spec_pack_condition (fst (random_random ((rng_tail ^^ k) g)))) ks)
         \<and> (\<forall>crd \<in> set cs. condition crd \<in> {pristine, mint, near_mint})"
proof -
  from assms have l: "generate_card_loop roster member r c sr weight True (nat amt) [] g
                        = Inr (cs, g')"
    by (simp add: generate_card_def)
  from generate_card_loop_pack_draws [OF l] have "\<exists>ks m. length ks = length cs
      \<and> sorted_wrt (<) ks \<and> (\<forall>k \<in> set ks. k < m) \<and> g' = (rng_tail ^^ m) g
      \<and> map condition cs =
          map (\<lambda>k. spec_pack_condition (fst (random_random ((rng_tail ^^ k) g)))) ks"
    by simp
  moreover have "\<forall>crd \<in> set cs. condition crd \<in> {pristine, mint, near_mint}"
    using generate_card_loop_pack_condition [OF l] by simp
  ultimately show ?thesis by blast
qed

theorem pack_mode_condition_witness:
  "(\<exists>cs g'. generate_card example_roster None (Some rare) (Some damaged) (Some unknown) 1 None
               True (\<lambda>_. 0) = Inr (cs, g')
      \<and> map condition cs = [pristine])
   \<and> (\<exists>cs g'. generate_card example_roster None (Some rare) (Some damaged) (Some unknown) 1 None
               True (\<lambda>_. 2 ^ 52) = Inr (cs, g')
      \<and> map condition cs = [mint])
   \<and> (\<exists>cs g'. generate_card example_roster None (Some rare) (Some damaged) (Some unknown) 1 None
               True (\<lambda>_. 2 ^ 53 - 1) = Inr (cs, g')
      \<and> map condition cs = [near_mint])"
proof -
  have one: "\<exists>cs g'. generate_card example_roster None (Some rare) (Some damaged) (Some unknown)
                        1 None True (\<lambda>_. v) = Inr (cs, g')
               \<and> map condition cs = [x]"
    if d: "spec_pack_condition (fst (random_random (\<lambda>_. v))) = x" for v x
  proof -
    obtain cs g' where
      h: "generate_card example_roster None (Some rare) (Some damaged) (Some unknown) 1 None True
            (\<lambda>_. v) = Inr (cs, g')" and len: "length cs = 1"
      using constant_tape_card [of v] by blast
    from pack_mode_condition [OF h] obtain ks where
      k: "length ks = length cs" and
      m: "map condition cs =
            map (\<lambda>k. spec_pack_condition (fst (random_random ((rng_tail ^^ k) (\<lambda>_. v))))) ks"
      by blast
    have "map condition cs = map (\<lambda>k. x) ks"
      using m unfolding constant_tape d .
    from singleton_map [OF k len this] h show ?thesis
      by (intro exI [of _ cs] exI [of _ g']) simp
  qed
  from one [OF constant_tape_draws(1)] one [OF constant_tape_draws(2)]
    one [OF constant_tape_draws(3)]
  show ?thesis by (intro conjI)
qed

lemma length_accumulate: "length (accumulate a ws) = length ws"
  by (induction ws arbitrary: a) simp_all

lemma random_choices_ok:
  assumes "length population = length ws" and "ws \<noteq> []" and "0 < last (accumulate 0 ws)"
  shows "\<exists>x. random_choices population ws g = Inr (x, rng_tail g)"
proof -
  obtain u g1 where rr: "random_random g = (u, g1)"
    by (cases "random_random g")
  have "g1 = rng_tail g"
    using rr by (simp add: random_random_def)
  moreover have "accumulate 0 ws \<noteq> []"
    using assms(2) length_accumulate [of 0 ws] by (cases "accumulate 0 ws") auto
  ultimately show ?thesis
    using assms rr by (simp add: random_choices_def length_accumulate Let_def)
qed

lemma generate_condition_basic_ok: "\<exists>x. generate_condition None g = Inr (x, rng_tail g)"
  unfolding generate_condition_def weight_or_basic_def Let_def
  by (rule random_choices_ok) simp_all

lemma generate_special_rarity_basic_ok:
  "\<exists>x. generate_special_rarity member None g = Inr (x, rng_tail g)"
proof -
  have "\<exists>tbl. special_rarity_weights member None = Inr tbl \<and> tbl \<noteq> []
           \<and> 0 < last (accumulate 0 (map snd tbl))"
    by (cases member) (simp_all add: special_rarity_weights_def weight_or_basic_def Let_def)
  then obtain tbl where t: "special_rarity_weights member None = Inr tbl" "tbl \<noteq> []"
    "0 < last (accumulate 0 (map snd tbl))" by blast
  have "\<exists>x. random_choices (map fst tbl) (map snd tbl) g = Inr (x, rng_tail g)"
    by (rule random_choices_ok) (use t in simp_all)
  then show ?thesis by (simp add: generate_special_rarity_def t(1))
qed

lemma get_random_character_ok:
  assumes "usable_rarity roster r"
  shows "\<exists>name. get_random_character roster (Some r) g = Inr (name, rng_tail g)"
  using assms
  by (simp add: usable_rarity_def get_random_character_def get_exclusive_rarities_def
      rarity_map_def random_choice_def)

lemma generate_one_card_ok:
  assumes "usable_rarity roster r"
  shows "\<exists>crd g'. generate_one_card roster member (Some r) None None None True g = Inr (crd, g')
           \<and> rarity crd = r"
proof -
  obtain c where c: "generate_condition None g = Inr (c, rng_tail g)"
    using generate_condition_basic_ok by blast
  obtain sr where sr: "generate_special_rarity member None (rng_tail g) = Inr (sr, rng_tail (rng_tail g))"
    using generate_special_rarity_basic_ok by blast
  obtain name where n: "get_random_character roster (Some r) (rng_tail (rng_tail g))
                          = Inr (name, rng_tail (rng_tail (rng_tail g)))"
    using get_random_character_ok [OF assms] by blast
  obtain cid g5 where cid: "generate_card_id (rng_tail (rng_tail (rng_tail g))) = Inr (cid, g5)"
    using generate_card_id_ok by blast
  show ?thesis
    by (simp add: generate_one_card_def c sr n cid pack_condition_choice)
qed

lemma generate_card_loop_ok:
  assumes "usable_rarity roster r"
  shows "\<exists>cs g'. generate_card_loop roster member (Some r) None None None True n acc g
                    = Inr (acc @ cs, g') \<and> map rarity cs = replicate n r"
proof (induction n arbitrary: acc g)
  case 0
  show ?case by simp
next
  case (Suc n)
  obtain crd g1 where one:
    "generate_one_card roster member (Some r) None None None True g = Inr (crd, g1)"
    "rarity crd = r"
    using generate_one_card_ok [OF assms] by blast
  from Suc.IH [of "acc @ [crd]" g1] obtain cs g' where
    "generate_card_loop roster member (Some r) None None None True n (acc @ [crd]) g1
       = Inr ((acc @ [crd]) @ cs, g')" "map rarity cs = replicate n r" by blast
  then have "generate_card_loop roster member (Some r) None None None True (Suc n) acc g
               = Inr (acc @ (crd # cs), g') \<and> map rarity (crd # cs) = replicate (Suc n) r"
    using one by simp
  then show ?case by blast
qed

lemma generate_card_ok:
  assumes "usable_rarity roster r"
  shows "\<exists>cs g'. generate_card roster member (Some r) None None amt None True g = Inr (cs, g')
           \<and> map rarity cs = replicate (nat amt) r"
  using generate_card_loop_ok [OF assms, of member "nat amt" "[]" g]
  by (simp add: generate_card_def)

lemma generate_card_pack_contents_ok:
  assumes "\<forall>ra \<in> set ras. usable_rarity roster (fst ra)"
  shows "\<exists>cs g'. generate_card_pack_contents roster member ras acc g = Inr (acc @ cs, g')
           \<and> map rarity cs = band_rarities ras"
  using assms
proof (induction ras arbitrary: acc g)
  case Nil
  show ?case by simp
next
  case (Cons ra ras)
  obtain r amt where ra: "ra = (r, amt)" by (cases ra)
  have u: "usable_rarity roster r" using Cons.prems ra by simp
  obtain gen g1 where gen:
    "generate_card roster (Some member) (Some r) None None amt None True g = Inr (gen, g1)"
    "map rarity gen = replicate (nat amt) r"
    using generate_card_ok [OF u] by blast
  have "\<forall>x \<in> set ras. usable_rarity roster (fst x)" using Cons.prems by simp
  from Cons.IH [OF this, of "acc @ gen" g1] obtain cs g' where
    "generate_card_pack_contents roster member ras (acc @ gen) g1 = Inr ((acc @ gen) @ cs, g')"
    "map rarity cs = band_rarities ras" by blast
  then have "generate_card_pack_contents roster member (ra # ras) acc g = Inr (acc @ (gen @ cs), g')
               \<and> map rarity (gen @ cs) = band_rarities (ra # ras)"
    using gen ra by simp
  then show ?case by blast
qed

lemma generate_leaked_card_ok:
  assumes "usable_rarity roster lr"
  shows "\<exists>gen g'. generate_leaked_card roster lr ch d g
                     = Inr ((gen, if fst (random_random g) * 100 < ch then d - 1 else d), g')
           \<and> map rarity gen = (if fst (random_random g) * 100 < ch then [lr] else [])"
proof -
  obtain u g1 where rr: "random_random g = (u, g1)"
    by (cases "random_random g")
  show ?thesis
  proof (cases "u * 100 < ch")
    case True
    obtain gen g2 where
      "generate_card roster None (Some lr) None None 1 None True g1 = Inr (gen, g2)"
      "map rarity gen = replicate (nat 1) lr"
      using generate_card_ok [OF assms] by blast
    then show ?thesis using rr True by (simp add: generate_leaked_card_def)
  next
    case False
    then show ?thesis using rr by (simp add: generate_leaked_card_def)
  qed
qed


lemma mod_bounds: "0 < (n::int) \<Longrightarrow> 0 \<le> x mod n \<and> x mod n < n"
  by simp

lemma rare_card_pack_layout:
  assumes "usable_rarity roster uncommon" "usable_rarity roster rare" "usable_rarity roster epic"
  shows "\<exists>cs g'. rare_card_pack_cards roster member g = Inr (cs, g') \<and> length cs = 7
           \<and> map rarity cs =
               (let k = 2 + int (g 0) mod 3;
                    leaked = (fst (random_random (rng_tail g)) * 100 < 20)
                in (if leaked then [epic] else [])
                   @ replicate (nat (if leaked then k - 1 else k)) rare
                   @ replicate (nat (7 - k)) uncommon)"
proof -
  define k where "k = 2 + int (g 0) mod 3"
  define leaked where "leaked = (fst (random_random (rng_tail g)) * 100 < 20)"
  define d where "d = (if leaked then k - 1 else k)"
  have kb: "2 \<le> k" "k \<le> 4"
    using mod_bounds [of 3 "int (g 0)"] by (simp_all add: k_def)
  have ri: "randint 2 4 g = Inr (k, rng_tail g)"
    by (simp add: randint_def k_def)
  obtain gen g2 where leak:
    "generate_leaked_card roster epic 20 k (rng_tail g) = Inr ((gen, d), g2)"
    "map rarity gen = (if leaked then [epic] else [])"
    using generate_leaked_card_ok [OF assms(3), of 20 k "rng_tail g"] leaked_def d_def by blast
  have "\<forall>ra \<in> set [(rare, d), (uncommon, 7 - k)]. usable_rarity roster (fst ra)"
    using assms by simp
  from generate_card_pack_contents_ok [OF this, of member gen g2] obtain cs g' where body:
    "generate_card_pack_contents roster member [(rare, d), (uncommon, 7 - k)] gen g2
       = Inr (gen @ cs, g')"
    "map rarity cs = band_rarities [(rare, d), (uncommon, 7 - k)]"
    by blast
  have res: "rare_card_pack_cards roster member g = Inr (gen @ cs, g')"
    unfolding rare_card_pack_cards_def Let_def ri
    using body(1) by (simp add: leak(1) del: generate_card_pack_contents.simps)
  have lay: "map rarity (gen @ cs) =
               (if leaked then [epic] else []) @ replicate (nat d) rare
               @ replicate (nat (7 - k)) uncommon"
    using leak(2) body(2) by simp
  have "length (map rarity (gen @ cs)) = 7"
    unfolding lay d_def using kb by (cases leaked) simp_all
  then have len: "length (gen @ cs) = 7" by simp
  show ?thesis
    using res lay len unfolding k_def leaked_def d_def Let_def by blast
qed


lemma epic_card_pack_layout:
  assumes "usable_rarity roster uncommon" "usable_rarity roster rare" "usable_rarity roster epic"
    "usable_rarity roster mythic"
  shows "\<exists>cs g'. epic_card_pack_cards roster member g = Inr (cs, g') \<and> length cs = 7
           \<and> map rarity cs =
               (let e = 1 + int (g 0) mod 2;
                    r = int (g 1) mod (8 - e);
                    leaked = (fst (random_random (rng_tail (rng_tail g))) * 100 < 10)
                in (if leaked then [mythic] else [])
                   @ replicate (nat (if leaked then e - 1 else e)) epic
                   @ replicate (nat r) rare
                   @ replicate (nat (7 - (e + r))) uncommon)"
proof -
  define e where "e = 1 + int (g 0) mod 2"
  define r where "r = int (g 1) mod (8 - e)"
  define leaked where "leaked = (fst (random_random (rng_tail (rng_tail g))) * 100 < 10)"
  define d where "d = (if leaked then e - 1 else e)"
  have eb: "1 \<le> e" "e \<le> 2"
    using mod_bounds [of 2 "int (g 0)"] by (simp_all add: e_def)
  have "0 < 8 - e" using eb by simp
  from mod_bounds [OF this, of "int (g 1)"] have rb: "0 \<le> r" "r \<le> 7 - e"
    unfolding r_def by linarith+
  have ri1: "randint 1 2 g = Inr (e, rng_tail g)"
    by (simp add: randint_def e_def)
  have ri2: "randint 0 (7 - e) (rng_tail g) = Inr (r, rng_tail (rng_tail g))"
    using eb by (simp add: randint_def r_def rng_tail_def algebra_simps)
  obtain gen g2 where leak:
    "generate_leaked_card roster mythic 10 e (rng_tail (rng_tail g)) = Inr ((gen, d), g2)"
    "map rarity gen = (if leaked then [mythic] else [])"
    using generate_leaked_card_ok [OF assms(4), of 10 e "rng_tail (rng_tail g)"] leaked_def d_def
    by blast
  have "\<forall>ra \<in> set [(epic, d), (rare, r), (uncommon, 7 - (e + r))]. usable_rarity roster (fst ra)"
    using assms by simp
  from generate_card_pack_contents_ok [OF this, of member gen g2] obtain cs g' where body:
    "generate_card_pack_contents roster member [(epic, d), (rare, r), (uncommon, 7 - (e + r))]
       gen g2 = Inr (gen @ cs, g')"
    "map rarity cs = band_rarities [(epic, d), (rare, r), (uncommon, 7 - (e + r))]"
    by blast
  have res: "epic_card_pack_cards roster member g = Inr (gen @ cs, g')"
    unfolding epic_card_pack_cards_def Let_def ri1
    using body(1) by (simp add: ri2 leak(1) del: generate_card_pack_contents.simps)
  have lay: "map rarity (gen @ cs) =
               (if leaked then [mythic] else []) @ replicate (nat d) epic
               @ replicate (nat r) rare @ replicate (nat (7 - (e + r))) uncommon"
    using leak(2) body(2) by simp
  have "length (map rarity (gen @ cs)) = 7"
    unfolding lay d_def using eb rb by (cases leaked) simp_all
  then have len: "length (gen @ cs) = 7" by simp
  show ?thesis
    using res lay len unfolding e_def r_def leaked_def d_def Let_def by blast
qed

lemma mythic_card_pack_layout:
  assumes "usable_rarity roster rare" "usable_rarity roster epic" "usable_rarity roster mythic"
    "usable_rarity roster legendary"
  shows "\<exists>cs g'. mythic_card_pack_cards roster member g = Inr (cs, g') \<and> length cs = 5
           \<and> map rarity cs =
               (let e = 1 + int (g 0) mod 2;
                    leaked = (fst (random_random (rng_tail g)) * 100 < 1)
                in (if leaked then [legendary] else [])
                   @ replicate (nat (if leaked then 1 - 1 else 1)) mythic
                   @ replicate (nat e) epic
                   @ replicate (nat (5 - (1 + e))) rare)"
proof -
  define e where "e = 1 + int (g 0) mod 2"
  define leaked where "leaked = (fst (random_random (rng_tail g)) * 100 < 1)"
  define d :: int where "d = (if leaked then 1 - 1 else 1)"
  have eb: "1 \<le> e" "e \<le> 2"
    using mod_bounds [of 2 "int (g 0)"] by (simp_all add: e_def)
  have ri1: "randint 1 2 g = Inr (e, rng_tail g)"
    by (simp add: randint_def e_def)
  obtain gen g2 where leak:
    "generate_leaked_card roster legendary 1 1 (rng_tail g) = Inr ((gen, d), g2)"
    "map rarity gen = (if leaked then [legendary] else [])"
    using generate_leaked_card_ok [OF assms(4), of 1 1 "rng_tail g"] leaked_def d_def
    by blast
  have "\<forall>ra \<in> set [(mythic, d), (epic, e), (rare, 5 - (1 + e))]. usable_rarity roster (fst ra)"
    using assms by simp
  from generate_card_pack_contents_ok [OF this, of member gen g2] obtain cs g' where body:
    "generate_card_pack_contents roster member [(mythic, d), (epic, e), (rare, 5 - (1 + e))]
       gen g2 = Inr (gen @ cs, g')"
    "map rarity cs = band_rarities [(mythic, d), (epic, e), (rare, 5 - (1 + e))]"
    by blast
  have res: "mythic_card_pack_cards roster member g = Inr (gen @ cs, g')"
    unfolding mythic_card_pack_cards_def Let_def ri1
    using body(1) by (simp add: leak(1) del: generate_card_pack_contents.simps)
  have lay: "map rarity (gen @ cs) =
               (if leaked then [legendary] else []) @ replicate (nat d) mythic
               @ replicate (nat e) epic @ replicate (nat (5 - (1 + e))) rare"
    using leak(2) body(2) by simp
  have "length (map rarity (gen @ cs)) = 5"
    unfolding lay d_def using eb by (cases leaked) simp_all
  then have len: "length (gen @ cs) = 5" by simp
  show ?thesis
    using res lay len unfolding e_def leaked_def d_def Let_def by blast
qed

lemma legendary_card_pack_layout:
  assumes "usable_rarity roster rare" "usable_rarity roster epic" "usable_rarity roster mythic"
    "usable_rarity roster legendary" "usable_rarity roster exotic"
  shows "\<exists>cs g'. legendary_card_pack_cards roster member g = Inr (cs, g') \<and> length cs = 5
           \<and> map rarity cs =
               (let m = int (g 0) mod 2;
                    leaked = (fst (random_random (rng_tail g)) * 100 < 1 / 10)
                in (if leaked then [exotic] else [])
                   @ replicate (nat (if leaked then 1 - 1 else 1)) legendary
                   @ replicate (nat m) mythic
                   @ replicate (nat (abs (m - 1))) epic
                   @ replicate (nat (5 - (1 + m + abs (m - 1)))) rare)"
proof -
  define m where "m = int (g 0) mod 2"
  define leaked where "leaked = (fst (random_random (rng_tail g)) * 100 < 1 / 10)"
  define d :: int where "d = (if leaked then 1 - 1 else 1)"
  have mb: "0 \<le> m" "m \<le> 1"
    using mod_bounds [of 2 "int (g 0)"] by (simp_all add: m_def)
  have ri1: "randint 0 1 g = Inr (m, rng_tail g)"
    by (simp add: randint_def m_def)
  obtain gen g2 where leak:
    "generate_leaked_card roster exotic (1 / 10) 1 (rng_tail g) = Inr ((gen, d), g2)"
    "map rarity gen = (if leaked then [exotic] else [])"
    using generate_leaked_card_ok [OF assms(5), of "1 / 10" 1 "rng_tail g"] leaked_def d_def
    by blast
  have "\<forall>ra \<in> set [(legendary, d), (mythic, m), (epic, abs (m - 1)),
                    (rare, 5 - (1 + m + abs (m - 1)))]. usable_rarity roster (fst ra)"
    using assms by simp
  from generate_card_pack_contents_ok [OF this, of member gen g2] obtain cs g' where body:
    "generate_card_pack_contents roster member
       [(legendary, d), (mythic, m), (epic, abs (m - 1)), (rare, 5 - (1 + m + abs (m - 1)))]
       gen g2 = Inr (gen @ cs, g')"
    "map rarity cs = band_rarities
       [(legendary, d), (mythic, m), (epic, abs (m - 1)), (rare, 5 - (1 + m + abs (m - 1)))]"
    by blast
  have res: "legendary_card_pack_cards roster member g = Inr (gen @ cs, g')"
    unfolding legendary_card_pack_cards_def Let_def ri1
    using body(1) by (simp add: leak(1) del: generate_card_pack_contents.simps)
  have lay: "map rarity (gen @ cs) =
               (if leaked then [exotic] else []) @ replicate (nat d) legendary
               @ replicate (nat m) mythic @ replicate (nat (abs (m - 1))) epic
               @ replicate (nat (5 - (1 + m + abs (m - 1)))) rare"
    using leak(2) body(2) by simp
  have "length (map rarity (gen @ cs)) = 5"
    unfolding lay d_def using mb by (cases leaked) simp_all
  then have len: "length (gen @ cs) = 5" by simp
  show ?thesis
    using res lay len unfolding m_def leaked_def d_def Let_def by blast
qed

lemma exotic_card_pack_layout:
  assumes "usable_rarity roster epic" "usable_rarity roster mythic"
    "usable_rarity roster legendary" "usable_rarity roster exotic"
  shows "\<exists>cs g'. exotic_card_pack_cards roster member g = Inr (cs, g') \<and> length cs = 5
           \<and> map rarity cs =
               (let x = int (g 0) mod 2; l = int (g 1) mod 3; m = int (g 2) mod 2
                in replicate (nat x) exotic @ replicate (nat l) legendary
                   @ replicate (nat m) mythic @ replicate (nat (5 - (x + l + m))) epic)"
proof -
  define x where "x = int (g 0) mod 2"
  define l where "l = int (g 1) mod 3"
  define m where "m = int (g 2) mod 2"
  have b: "0 \<le> x" "x \<le> 1" "0 \<le> l" "l \<le> 2" "0 \<le> m" "m \<le> 1"
    using mod_bounds [of 2 "int (g 0)"] mod_bounds [of 3 "int (g 1)"] mod_bounds [of 2 "int (g 2)"]
    by (simp_all add: x_def l_def m_def)
  have ri1: "randint 0 1 g = Inr (x, rng_tail g)"
    by (simp add: randint_def x_def)
  have ri2: "randint 0 2 (rng_tail g) = Inr (l, rng_tail (rng_tail g))"
    by (simp add: randint_def l_def rng_tail_def)
  have ri3: "randint 0 1 (rng_tail (rng_tail g)) = Inr (m, rng_tail (rng_tail (rng_tail g)))"
    by (simp add: randint_def m_def rng_tail_def numeral_2_eq_2)
  have "\<forall>ra \<in> set [(exotic, x), (legendary, l), (mythic, m), (epic, 5 - (x + l + m))].
          usable_rarity roster (fst ra)"
    using assms by simp
  from generate_card_pack_contents_ok [OF this, of member "[]" "rng_tail (rng_tail (rng_tail g))"]
  obtain cs g' where body:
    "generate_card_pack_contents roster member
       [(exotic, x), (legendary, l), (mythic, m), (epic, 5 - (x + l + m))] []
       (rng_tail (rng_tail (rng_tail g))) = Inr (cs, g')"
    "map rarity cs = band_rarities
       [(exotic, x), (legendary, l), (mythic, m), (epic, 5 - (x + l + m))]"
    by auto
  have res: "exotic_card_pack_cards roster member g = Inr (cs, g')"
    unfolding exotic_card_pack_cards_def Let_def ri1
    using body(1) by (simp add: ri2 ri3 del: generate_card_pack_contents.simps)
  have lay: "map rarity cs =
               replicate (nat x) exotic @ replicate (nat l) legendary
               @ replicate (nat m) mythic @ replicate (nat (5 - (x + l + m))) epic"
    using body(2) by simp
  have "length (map rarity cs) = 5"
    unfolding lay using b by simp
  then have len: "length cs = 5" by simp
  show ?thesis
    using res lay len unfolding x_def l_def m_def Let_def by blast
qed


text \<open>
  C8: with a character available for every rarity a pack uses, every pack opening returns
  cards, whatever the random tape: 7 for the rare and epic packs, 5 for the mythic,
  legendary and exotic packs. The rarities of the cards are laid out as the leaked card
  (one card of the next rarity up, present exactly when the leak roll is below the pack's
  chance), then the top band, one shorter when the leak succeeded, then the lower bands;
  the exotic pack has no leak roll and no leaked card.
\<close>

theorem card_pack_total:
  assumes "\<forall>r \<in> set [uncommon, rare, epic, mythic, legendary, exotic]. roster r \<noteq> []"
  shows
    "(\<exists>cs g'. card_pack_cards roster rare_card_pack member g = Inr (cs, g') \<and> length cs = 7
        \<and> map rarity cs =
            (let k = 2 + int (g 0) mod 3;
                 leaked = (fst (random_random (rng_tail g)) * 100 < 20)
             in (if leaked then [epic] else [])
                @ replicate (nat (if leaked then k - 1 else k)) rare
                @ replicate (nat (7 - k)) uncommon))
     \<and> (\<exists>cs g'. card_pack_cards roster epic_card_pack member g = Inr (cs, g') \<and> length cs = 7
        \<and> map rarity cs =
            (let e = 1 + int (g 0) mod 2;
                 r = int (g 1) mod (8 - e);
                 leaked = (fst (random_random (rng_tail (rng_tail g))) * 100 < 10)
             in (if leaked then [mythic] else [])
                @ replicate (nat (if leaked then e - 1 else e)) epic
                @ replicate (nat r) rare
                @ replicate (nat (7 - (e + r))) uncommon))
     \<and> (\<exists>cs g'. card_pack_cards roster mythic_card_pack member g = Inr (cs, g') \<and> length cs = 5
        \<and> map rarity cs =
            (let e = 1 + int (g 0) mod 2;
                 leaked = (fst (random_random (rng_tail g)) * 100 < 1)
             in (if leaked then [legendary] else [])
                @ replicate (nat (if leaked then 1 - 1 else 1)) mythic
                @ replicate (nat e) epic
                @ replicate (nat (5 - (1 + e))) rare))
     \<and> (\<exists>cs g'. card_pack_cards roster legendary_card_pack member g = Inr (cs, g')
        \<and> length cs = 5
        \<and> map rarity cs =
            (let m = int (g 0) mod 2;
                 leaked = (fst (random_random (rng_tail g)) * 100 < 1 / 10)
             in (if leaked then [exotic] else [])
                @ replicate (nat (if leaked then 1 - 1 else 1)) legendary
                @ replicate (nat m) mythic
                @ replicate (nat (abs (m - 1))) epic
                @ replicate (nat (5 - (1 + m + abs (m - 1)))) rare))
     \<and> (\<exists>cs g'. card_pack_cards roster exotic_card_pack member g = Inr (cs, g') \<and> length cs = 5
        \<and> map rarity cs =
            (let x = int (g 0) mod 2; l = int (g 1) mod 3; m = int (g 2) mod 2
             in replicate (nat x) exotic @ replicate (nat l) legendary
                @ replicate (nat m) mythic @ replicate (nat (5 - (x + l + m))) epic))"
proof -
  have u: "usable_rarity roster uncommon" "usable_rarity roster rare" "usable_rarity roster epic"
    "usable_rarity roster mythic" "usable_rarity roster legendary" "usable_rarity roster exotic"
    using assms by (simp_all add: usable_rarity_def)
  have d: "card_pack_cards roster rare_card_pack member g = rare_card_pack_cards roster member g"
    "card_pack_cards roster epic_card_pack member g = epic_card_pack_cards roster member g"
    "card_pack_cards roster mythic_card_pack member g = mythic_card_pack_cards roster member g"
    "card_pack_cards roster legendary_card_pack member g
       = legendary_card_pack_cards roster member g"
    "card_pack_cards roster exotic_card_pack member g = exotic_card_pack_cards roster member g"
    by (simp_all add: card_pack_cards_def)
  show ?thesis
    unfolding d
    by (intro conjI rare_card_pack_layout epic_card_pack_layout mythic_card_pack_layout
        legendary_card_pack_layout exotic_card_pack_layout u)
qed

theorem card_pack_total_witness:
  "example_roster uncommon \<noteq> [] \<and> example_roster rare \<noteq> [] \<and> example_roster epic \<noteq> []
   \<and> example_roster mythic \<noteq> [] \<and> example_roster legendary \<noteq> []
   \<and> example_roster exotic \<noteq> []
   \<and> (\<exists>cs g'. card_pack_cards example_roster rare_card_pack example_member (\<lambda>_. 0) = Inr (cs, g')
         \<and> length cs = 7
         \<and> map rarity cs = [epic, rare, uncommon, uncommon, uncommon, uncommon, uncommon])"
proof -
  have h: "\<forall>r \<in> set [uncommon, rare, epic, mythic, legendary, exotic]. example_roster r \<noteq> []"
    by (simp add: example_roster_def)
  have roll: "fst (random_random (rng_tail (\<lambda>_. 0))) = 0"
    by (simp add: random_random_def rng_tail_def)
  from card_pack_total [OF h, of example_member "\<lambda>_. 0"] obtain cs g' where
    "card_pack_cards example_roster rare_card_pack example_member (\<lambda>_. 0) = Inr (cs, g')"
    "length cs = 7"
    "map rarity cs =
       (let k = 2 + int ((\<lambda>_. 0) (0::nat)) mod 3;
            leaked = (fst (random_random (rng_tail (\<lambda>_. 0))) * 100 < 20)
        in (if leaked then [epic] else [])
           @ replicate (nat (if leaked then k - 1 else k)) rare
           @ replicate (nat (7 - k)) uncommon)"
    by blast
  then show ?thesis
    using h by (simp add: roll Let_def eval_nat_numeral)
qed

text \<open>
  C1 (the code differs): for a patron the weights used are the table's with twice the shiny
  weight taken from the unknown entry, and the shiny entry left as it is in the table: with
  the standard table the shiny weight stays \<open>1 / 20\<close> (0.05), not \<open>1 / 10\<close>, and the total
  drops from 100 to \<open>999 / 10\<close>.
\<close>

theorem patron_shiny_weight_unchanged:
  "is_patreon example_patron
   \<and> special_rarity_weights (Some example_patron) (Some BasicWeight)
       = Inr [(unknown, 1999 / 20 - 2 * (1 / 20)), (shiny, 1 / 20)]
   \<and> map_of (weight_special_rarity BasicWeight) shiny = Some (1 / 20)
   \<and> (1 / 20 :: rat) \<noteq> 2 * (1 / 20)"
  by (simp add: special_rarity_weights_def weight_or_basic_def is_patreon_def get_role_ids_def
      PatreonRole_members_def example_patron_def)

lemma patron_weights_general:
  assumes "is_patreon m"
  shows "\<exists>tbl. special_rarity_weights (Some m) (Some wt) = Inr tbl
           \<and> map_of tbl shiny = map_of (weight_special_rarity wt) shiny
           \<and> map_of tbl unknown =
               Some (the (map_of (weight_special_rarity wt) unknown)
                     - 2 * (case map_of (weight_special_rarity wt) shiny of
                              None \<Rightarrow> 1 / 100 | Some sw \<Rightarrow> sw))"
  using assms
  by (cases wt) (simp_all add: special_rarity_weights_def weight_or_basic_def)

text \<open>
  C10: under a cooldown-gated command, a confirmation that times out sends the timeout
  message, leaves every table as it was, resets the actor's bucket of the command, so that
  the next invocation passes the cooldown check at any time, and does not depend on the
  callback; a declined confirmation sends the cancel message and leaves the tables and
  every bucket as they were, again whatever the callback is.
\<close>

theorem confirmation_expired_or_declined:
  assumes "command i = Some cmd" and "extras_cooldown cmd = Some rp"
    and "1 \<le> rate (get_bucket cmd rp (user i) w)"
  shows "wait_for_confirmation i None tm callback w =
           (None, send (error_embed (case tm of None \<Rightarrow> ''You took too long to respond.''
                                        | Some t \<Rightarrow> t))
                    (put_bucket cmd (user i) (reset (get_bucket cmd rp (user i) w)) w))
         \<and> fst (wrapper i now (snd (wait_for_confirmation i None tm callback w))) = Inr True
         \<and> wait_for_confirmation i (Some False) tm callback w =
             (None, send (error_embed ''Command canceled.'') w)
         \<and> (let w1 = snd (wait_for_confirmation i None tm callback w);
                 w2 = snd (wait_for_confirmation i (Some False) tm callback w)
             in users w1 = users w \<and> inventory w1 = inventory w \<and> cards w1 = cards w
                \<and> levels w1 = levels w
                \<and> users w2 = users w \<and> inventory w2 = inventory w \<and> cards w2 = cards w
                \<and> levels w2 = levels w \<and> cooldowns w2 = cooldowns w
                \<and> cooldowns w1 (command_name cmd, member_id (user i))
                    = Some (reset (get_bucket cmd rp (user i) w)))"
proof -
  let ?b = "get_bucket cmd rp (user i) w"
  have e: "wait_for_confirmation i None tm callback w =
             (None, send (error_embed (case tm of None \<Rightarrow> ''You took too long to respond.''
                                          | Some t \<Rightarrow> t))
                      (put_bucket cmd (user i) (reset ?b) w))"
    using assms(1,2) by (simp add: wait_for_confirmation_def reset_command_cooldown_def)
  have d: "wait_for_confirmation i (Some False) tm callback w =
             (None, send (error_embed ''Command canceled.'') w)"
    by (simp add: wait_for_confirmation_def)
  have gb: "get_bucket cmd rp (user i)
              (send (error_embed (case tm of None \<Rightarrow> ''You took too long to respond.''
                                   | Some t \<Rightarrow> t))
                 (put_bucket cmd (user i) (reset ?b) w)) = reset ?b"
    by (simp add: get_bucket_def send_def put_bucket_def)
  have url: "fst (update_rate_limit (reset ?b) now) = None"
    using assms(3) by (simp add: update_rate_limit_def reset_def get_tokens_def Let_def)
  obtain b' where u: "update_rate_limit (reset ?b) now = (None, b')"
    using url by (cases "update_rate_limit (reset ?b) now") simp
  have r: "fst (wrapper i now (snd (wait_for_confirmation i None tm callback w))) = Inr True"
    unfolding e using assms(1,2)
    by (simp add: wrapper_def gb u)
  show ?thesis
    unfolding Let_def e d using r e
    by (simp add: send_def put_bucket_def)
qed

theorem confirmation_expired_or_declined_witness:
  "command burn_interaction = Some burn_command
   \<and> extras_cooldown burn_command = Some (1, 60)
   \<and> 1 \<le> rate (get_bucket burn_command (1, 60) (user burn_interaction) example_world)
   \<and> fst (wrapper burn_interaction 5
            (snd (wait_for_confirmation burn_interaction None None (\<lambda>w. (None, w))
                    example_world))) = Inr True
   \<and> wait_for_confirmation burn_interaction (Some False) None (\<lambda>w. (None, w)) example_world =
       (None, send (error_embed ''Command canceled.'') example_world)"
proof -
  have h1: "command burn_interaction = Some burn_command"
    by (simp add: burn_interaction_def)
  have h2: "extras_cooldown burn_command = Some (1, 60)"
    by (simp add: burn_command_def)
  have h3: "1 \<le> rate (get_bucket burn_command (1, 60) (user burn_interaction) example_world)"
    by (simp add: get_bucket_def example_world_def new_bucket_def)
  from confirmation_expired_or_declined [OF h1 h2 h3, of None "\<lambda>w. (None, w)" 5]
  have "fst (wrapper burn_interaction 5
               (snd (wait_for_confirmation burn_interaction None None (\<lambda>w. (None, w))
                       example_world))) = Inr True"
    and "wait_for_confirmation burn_interaction (Some False) None (\<lambda>w. (None, w)) example_world =
           (None, send (error_embed ''Command canceled.'') example_world)"
    by blast+
  then show ?thesis using h1 h2 h3 by blast
qed

lemma title_Bob: "title ''Bob'' = ''Bob''" "casefold ''Bob'' = ''bob''"
  by code_simp+

lemma craft_final_rejects_missing_resources:
  assumes "check_required_characters (member_id (user i)) (required_characters entity) w = Some msg
           \<or> (check_required_characters (member_id (user i)) (required_characters entity) w = None
               \<and> check_required_items (member_id (user i)) (required_items entity) w = Some msg)"
    and "command i = Some cmd" and "extras_cooldown cmd = Some rp"
  shows "confirm_forge_craft_final i star_cost entity required_cards crafted w =
           (None, send (error_embed msg)
                    (put_bucket cmd (user i) (reset (get_bucket cmd rp (user i) w)) w))"
  using assms
  by (auto simp add: confirm_forge_craft_final_def reject_with_reset_def
      reset_command_cooldown_def)

text \<open>
  C2 (the code differs): the final confirmation step of a craft checks the character cards
  and the items again, and rejects without consuming anything when one of them is missing,
  but it does not check the star balance: with a balance of 0 and a cost of 82 the craft is
  committed, the balance becomes \<open>- 82\<close>, the item and the card are consumed and the new
  card is created.
\<close>

theorem craft_final_star_not_checked:
  "star example_user < 82
   \<and> fst (confirm_forge_craft_final craft_interaction 82 example_entity [example_card]
             crafted_card craft_world) = None
   \<and> map star (users (snd (confirm_forge_craft_final craft_interaction 82 example_entity
                              [example_card] crafted_card craft_world))) = [- 82]
   \<and> cards (snd (confirm_forge_craft_final craft_interaction 82 example_entity [example_card]
                    crafted_card craft_world)) = [crafted_card]
   \<and> inventory (snd (confirm_forge_craft_final craft_interaction 82 example_entity
                        [example_card] crafted_card craft_world)) = []"
  by (simp add: confirm_forge_craft_final_def craft_interaction_def example_entity_def
      example_card_def crafted_card_def craft_world_def example_user_def example_member_def
      get_cards_by_character_name_def title_Bob owner_pk_def get_table_def none_if_empty_def
      get_item_def remove_item_def set_star_def delete_cards_by_card_id_def add_card_def
      send_def)

lemma py_round_star: "py_round (15 / 2) = 8"
  by code_simp

lemma fusion_rejects_first_card_shiny:
  assumes "get_table (member_id (user i)) w = Some t"
    and "get_item (member_id (user i)) fusion_crystal w = Some row"
    and "get_cards_by_card_id [first_card_id, second_card_id] w = Some cs"
    and "2 \<le> length cs"
    and "owner_id (cs ! 0) = table_id t" and "owner_id (cs ! 1) = table_id t"
    and "rarity (cs ! 0) = rarity (cs ! 1)"
    and "special_rarity (cs ! 0) = shiny" and "special_rarity (cs ! 1) \<noteq> shiny"
  shows "forge_fusion handle_exp_addition roster i first_card_id second_card_id now g view_value
           meanwhile w =
           (None, send (error_embed ''Both cards must be shiny in-order to be fused.'') w)"
  using assms by (simp add: forge_fusion_def Let_def)

text \<open>
  C3 (the code differs): the shiny check of fusion rejects only when the first card is shiny
  and the second is not. With the first card not shiny and the second shiny, of the same
  rarity and owned by the actor, the confirmation prompt is sent, and on acceptance both
  cards are deleted, a card that is not shiny is created and the star cost of a fusion that
  is not shiny is taken.
\<close>

theorem fusion_accepts_second_card_shiny:
  "special_rarity plain_card \<noteq> shiny \<and> special_rarity shiny_card = shiny
   \<and> (\<exists>w'. forge_fusion no_exp example_roster fusion_interaction ''aaaaaa'' ''bbbbbb'' 5
              (\<lambda>_. 0) (Some True) id fusion_world = (None, w')
          \<and> sent w' = [warning_embed ''Are you sure you want to fuse both of these cards?'',
                        success_embed ''Fusion successful!'']
          \<and> map special_rarity (cards w') = [unknown]
          \<and> map star (users w') = [92])"
proof -
  obtain cid g5 where cid: "generate_card_id (rng_tail (\<lambda>_. 0)) = Inr (cid, g5)"
    using generate_card_id_ok by blast
  have gen: "generate_card example_roster None (Some common) (Some good) (Some unknown) 1 None
               False (\<lambda>_. 0)
             = Inr ([\<lparr>card_id = cid, rarity = common, condition = good, special_rarity = unknown,
                      character_name = ''Bob'', has_sleeve = False\<rparr>], g5)"
    using cid
    by (simp add: generate_card_def generate_one_card_def get_random_character_def
        get_exclusive_rarities_def rarity_map_def random_choice_def example_roster_def)
  have cs: "get_cards_by_card_id [''aaaaaa'', ''bbbbbb''] fusion_world
              = Some [plain_card, shiny_card]"
    by (simp add: get_cards_by_card_id_def fusion_world_def plain_card_def shiny_card_def
        example_card_def none_if_empty_def)
  show ?thesis
    by (simp add: forge_fusion_def cs gen py_round_star
        fusion_interaction_def example_member_def fusion_world_def example_user_def
        plain_card_def shiny_card_def example_card_def get_table_def get_item_def owner_pk_def
        get_valuable_rarities_def get_exclusive_rarities_def send_def
        wait_for_confirmation_def confirm_forge_fusion_def get_cards_by_card_id_def
        none_if_empty_def set_star_def delete_cards_by_card_id_def add_card_def randint_def
        no_exp_def Let_def)
qed

theorem fusion_accepts_second_card_shiny_witness:
  "sent (snd (forge_fusion no_exp example_roster fusion_interaction ''aaaaaa'' ''bbbbbb'' 5
                (\<lambda>_. 0) (Some True) id fusion_world))
     = [warning_embed ''Are you sure you want to fuse both of these cards?'',
        success_embed ''Fusion successful!'']
   \<and> map special_rarity
         (cards (snd (forge_fusion no_exp example_roster fusion_interaction ''aaaaaa'' ''bbbbbb''
                        5 (\<lambda>_. 0) (Some True) id fusion_world))) = [unknown]"
proof -
  have "\<exists>w'. forge_fusion no_exp example_roster fusion_interaction ''aaaaaa'' ''bbbbbb'' 5
               (\<lambda>_. 0) (Some True) id fusion_world = (None, w')
          \<and> sent w' = [warning_embed ''Are you sure you want to fuse both of these cards?'',
                        success_embed ''Fusion successful!'']
          \<and> map special_rarity (cards w') = [unknown]
          \<and> map star (users w') = [92]"
    using fusion_accepts_second_card_shiny by (elim conjE)
  then obtain w' where
    a: "forge_fusion no_exp example_roster fusion_interaction ''aaaaaa'' ''bbbbbb'' 5 (\<lambda>_. 0)
          (Some True) id fusion_world = (None, w')"
    and b: "sent w' = [warning_embed ''Are you sure you want to fuse both of these cards?'',
                       success_embed ''Fusion successful!'']"
    and c: "map special_rarity (cards w') = [unknown]"
    by (elim exE conjE)
  show ?thesis
    by (simp only: a snd_conv b c)
qed

lemma casefold_crown: "casefold ''crown'' = ''crown''"
  by code_simp

lemma patreon_price_100: "patreon_price 100 = 80"
  by code_simp

text \<open>
  C4 (the code differs): \<^verbatim>\<open>item_buy\<close> computes the patron's discounted unit price only for
  the prompt; the total it passes to the commit is the undiscounted price times the
  amount. A patron buying two crowns priced 100 pays 200, not \<open>2 * 80\<close>.
\<close>

theorem patron_pays_full_price:
  "is_patreon (user patron_interaction)
   \<and> map_option price (shop_table crown) = Some (Some 100)
   \<and> patreon_price 100 = 80
   \<and> map silver (users shop_world) = [1000]
   \<and> fst (item_buy shop_table patron_interaction ''crown'' 2 (Some True) id shop_world) = None
   \<and> map silver (users (snd (item_buy shop_table patron_interaction ''crown'' 2 (Some True) id
                                shop_world))) = [1000 - 100 * 2]"
  by (simp add: item_buy_def casefold_crown patreon_price_100 ITEMS_def shop_table_def
      purchasable_def patron_interaction_def example_patron_def is_patreon_def get_role_ids_def
      PatreonRole_members_def shop_world_def example_user_def levels_get_table_def get_table_def
      send_def wait_for_confirmation_def confirm_item_buy_def set_silver_def add_item_def
      owner_pk_def Let_def)

lemma full_cards_facts:
  "length full_cards = 2500" "\<forall>c \<in> set full_cards. owner_id c = 1"
  by (simp_all add: full_cards_def example_card_def)

lemma full_world_get_cards: "get_cards 7 full_world = Some full_cards"
proof -
  have "filter (\<lambda>c. Some (owner_id c) = Some 1) full_cards = full_cards"
    using full_cards_facts(2) by (simp add: filter_True)
  moreover have "full_cards \<noteq> []"
    using full_cards_facts(1) by auto
  ultimately show ?thesis
    by (simp add: get_cards_def owner_pk_def get_table_def full_world_def example_user_def
        none_if_empty_def)
qed

text \<open>
  Opening a pack never answers a user at backpack level 5 with the backpack-full
  message, however many cards the user holds.
\<close>

lemma sent_add_claimed_cards: "sent (add_claimed_cards pk now cs w) = sent w"
  by (induction cs arbitrary: w) (simp_all add: add_card_def)

lemma sent_register: "sent (snd (register new_row now uid w)) = sent w"
  by (simp add: register_def split: option.splits)

lemma sent_handle_card_pack:
  "sent (snd (handle_card_pack new_row i cs claimed now w)) = sent w
   \<or> (\<exists>rest. sent (snd (handle_card_pack new_row i cs claimed now w))
               = sent w @ custom_embed ''has opened a pack'' # rest)"
proof -
  have r: "\<And>w1. sent (snd (register new_row now (member_id (user i)) w1)) = sent w1"
    by (rule sent_register)
  show ?thesis
    using r [of "send (custom_embed ''has opened a pack'') w"]
    by (cases claimed)
       (auto simp add: handle_card_pack_def send_def sent_add_claimed_cards Let_def
          split: sum.splits option.splits prod.splits bool.splits)
qed

lemma handle_card_pack_not_error_first:
  "sent (snd (handle_card_pack new_row i cs claimed now w)) \<noteq> sent w @ [error_embed m]"
  using sent_handle_card_pack [of new_row i cs claimed now w] by auto

lemma pack_claim_not_limited_at_level_five:
  assumes "get_item (member_id (user i)) it w = Some row" and "amount_to_use \<le> amount row"
    and "get_table (member_id (user i)) w = Some t" and "backpack_level t = 5"
    and "get_cards (member_id (user i)) w = Some cs"
  shows "sent (snd (confirm_item_use to_entity roster new_row i it amount_to_use now g claimed w))
           \<noteq> sent w @ [error_embed
                ''Your backpack is full! Consider burning cards or upgrading your backpack.'']"
proof -
  define uid where "uid = member_id (user i)"
  define p where "p = (if has_minimum_patreon_role (user i) PatreonRole_uncommon then
                 (let (u, g') = random_random g
                  in if u < 9 / 10 then (remove_item uid it amount_to_use w, g') else (w, g'))
               else (remove_item uid it amount_to_use w, g))"
  have s1: "sent (fst p) = sent w"
    by (simp add: p_def remove_item_def Let_def split: prod.splits)
  have res: "confirm_item_use to_entity roster new_row i it amount_to_use now g claimed w =
          (case to_entity it of
             None \<Rightarrow> (Some KeyError, fst p)
           | Some item_entity \<Rightarrow>
               if usable item_entity then
                 (case card_pack_cards roster it (user i) (snd p) of
                    Inl e \<Rightarrow> (Some e, fst p)
                  | Inr (generated, _) \<Rightarrow>
                      handle_card_pack new_row i generated claimed now (fst p))
               else (None, fst p))"
    using assms unfolding p_def uid_def
    by (simp add: confirm_item_use_def Let_def case_prod_beta)
  show ?thesis
    unfolding res using handle_card_pack_not_error_first [of new_row i _ claimed now "fst p"]
    by (auto simp add: s1 split: option.splits sum.splits prod.splits)
qed

text \<open>
  C5 (the code differs): the grab from a drop compares the card count with
  \<open>backpack_level * 500\<close> at every level; a user at level 5 who holds 2500 cards is
  rejected with the backpack-full message. Only the pack path exempts level 5.
\<close>

theorem grab_rejected_at_level_five:
  "map backpack_level (users full_world) = [5]
   \<and> get_cards 7 full_world = Some full_cards \<and> length full_cards = 2500
   \<and> CardDropButton_callback no_exp example_user drop_button (Some drop_view) grab_interaction
        5 (\<lambda>_. 0) full_world
       = (None, drop_button,
          send (error_embed
            ''Your backpack is full! Consider burning cards or upgrading your backpack.'')
            full_world)"
proof -
  have t: "get_table 7 full_world = Some (example_user\<lparr>backpack_level := 5\<rparr>)"
    by (simp add: get_table_def full_world_def example_user_def)
  have r: "register example_user 5 7 full_world = (1, full_world)"
    by (simp add: register_def t example_user_def)
  have u: "map backpack_level (users full_world) = [5]"
    by (simp add: full_world_def)
  show ?thesis
    using u full_cards_facts(1)
    by (simp add: CardDropButton_callback_def grab_interaction_def example_member_def r t
        full_world_get_cards)
qed


end
